theory Spec2Isabelle
  imports Main "HOL-Library.Word" "HOL-Library.AList" "HOL-Library.Monad_Syntax"
begin

section \<open>Python strings and errors\<close>

text \<open>
  A Python \<open>str\<close> is a sequence of Unicode code points; it is modelled as the list of
  those code points, so that \<open>len\<close>, slicing, \<open>find\<close> and \<open>strip\<close> count what Python
  counts. \<open>ascii\<close> turns an ASCII literal into such a string.
\<close>

type_synonym pystr = "nat list"

definition ascii :: "string \<Rightarrow> pystr" where
  "ascii s = map of_char s"

text \<open>The exceptions that the functions of \<open>stride_threat_model.py\<close> raise or let through.\<close>

datatype error =
    FileNotFoundError pystr
  | IsADirectoryError pystr
  | PermissionError pystr
  | IndexError
  | JSONDecodeError
  | ValueError pystr
  | KeyError pystr

text \<open>
  \<open>str.isspace\<close> of one code point: the characters that \<open>str.strip()\<close> removes
  (CPython's \<open>_PyUnicode_IsWhitespace\<close>).
\<close>

definition isspace :: "nat \<Rightarrow> bool" where
  "isspace c \<longleftrightarrow>
     (9 \<le> c \<and> c \<le> 13) \<or> (28 \<le> c \<and> c \<le> 32) \<or> c = 133 \<or> c = 160 \<or> c = 5760 \<or>
     (8192 \<le> c \<and> c \<le> 8202) \<or> c = 8232 \<or> c = 8233 \<or> c = 8239 \<or> c = 8287 \<or> c = 12288"

definition rstrip :: "pystr \<Rightarrow> pystr" where
  "rstrip s = rev (dropWhile isspace (rev s))"

definition strip :: "pystr \<Rightarrow> pystr" where
  "strip s = dropWhile isspace (rstrip s)"

definition startswith :: "pystr \<Rightarrow> pystr \<Rightarrow> bool" where
  "startswith s p \<longleftrightarrow> take (length p) s = p"

definition endswith :: "pystr \<Rightarrow> pystr \<Rightarrow> bool" where
  "endswith s p \<longleftrightarrow> length p \<le> length s \<and> drop (length s - length p) s = p"

text \<open>\<open>s.split(c, 1)\<close> for a one-character separator: one piece, or two when \<open>c\<close> occurs.\<close>

definition split_once :: "pystr \<Rightarrow> nat \<Rightarrow> pystr list" where
  "split_once s c =
     (if c \<in> set s then [takeWhile (\<lambda>x. x \<noteq> c) s, tl (dropWhile (\<lambda>x. x \<noteq> c) s)] else [s])"

text \<open>\<open>xs[i]\<close> for \<open>i \<ge> 0\<close>: Python raises IndexError out of range.\<close>

definition index :: "'a list \<Rightarrow> nat \<Rightarrow> error + 'a" where
  "index xs i = (if i < length xs then Inr (xs ! i) else Inl IndexError)"

text \<open>\<open>s.find(c)\<close> and \<open>s.rfind(c)\<close> for a one-character \<open>c\<close>: an index, or \<open>-1\<close>.\<close>

definition str_find :: "pystr \<Rightarrow> nat \<Rightarrow> int" where
  "str_find s c = (if c \<in> set s then int (length (takeWhile (\<lambda>x. x \<noteq> c) s)) else - 1)"

definition str_rfind :: "pystr \<Rightarrow> nat \<Rightarrow> int" where
  "str_rfind s c =
     (if c \<in> set s then int (length s) - 1 - int (length (takeWhile (\<lambda>x. x \<noteq> c) (rev s)))
      else - 1)"

text \<open>\<open>s[i:j]\<close>; the source only slices with \<open>i \<ge> 0\<close> and \<open>j > i\<close>.\<close>

definition str_slice :: "pystr \<Rightarrow> int \<Rightarrow> int \<Rightarrow> pystr" where
  "str_slice s i j = drop (nat i) (take (nat j) s)"

text \<open>\<open>sep.join(xs)\<close>.\<close>

fun join :: "pystr \<Rightarrow> pystr list \<Rightarrow> pystr" where
  "join sep [] = []"
| "join sep [x] = x"
| "join sep (x # y # ys) = x @ sep @ join sep (y # ys)"

text \<open>\<open>str(n)\<close> of a non-negative integer, as an f-string prints a counter.\<close>

fun str_nat :: "nat \<Rightarrow> pystr" where
  "str_nat n = (if n < 10 then [48 + n] else str_nat (n div 10) @ [48 + n mod 10])"

declare str_nat.simps [simp del]

definition backticks :: pystr where
  "backticks = [96, 96, 96]"

section \<open>Reading the model's reply\<close>

text \<open>
  Lines 121--126 and 210--215, the same in \<open>extract_components\<close> and \<open>analyze_stride\<close>:
  a reply that starts with three backticks loses its first line, a closing fence and the
  surrounding white space. \<open>raw.split("\n", 1)[1]\<close> raises IndexError when the reply has
  no newline.
\<close>

definition strip_fences :: "pystr \<Rightarrow> error + pystr" where
  "strip_fences raw =
     (if startswith raw backticks then
        (case index (split_once raw 10) 1 of
           Inl e \<Rightarrow> Inl e
         | Inr raw1 \<Rightarrow>
             let raw2 = (if endswith raw1 backticks then take (length raw1 - 3) raw1 else raw1)
             in Inr (strip raw2))
      else Inr raw)"

text \<open>
  Lines 128--137 and 217--224: \<open>json.loads\<close>, and when it raises JSONDecodeError the text
  from the first \<open>{\<close> to the last \<open>}\<close> is parsed instead. \<open>json.loads\<close> is the standard
  library's; it is a parameter \<open>loads\<close>, \<open>None\<close> standing for JSONDecodeError. The second
  call is not guarded, so its JSONDecodeError leaves the function. \<open>msg\<close> is the text of
  the ValueError before the reply.
\<close>

definition loads_or_repair :: "(pystr \<Rightarrow> 'j option) \<Rightarrow> pystr \<Rightarrow> pystr \<Rightarrow> error + 'j" where
  "loads_or_repair loads msg raw =
     (case loads raw of
        Some v \<Rightarrow> Inr v
      | None \<Rightarrow>
          (let start = str_find raw 123; end = str_rfind raw 125 + 1
           in if start \<noteq> - 1 \<and> end > start then
                (case loads (str_slice raw start end) of
                   Some v \<Rightarrow> Inr v
                 | None \<Rightarrow> Inl JSONDecodeError)
              else Inl (ValueError (msg @ raw))))"

section \<open>The documents\<close>

text \<open>
  The two JSON documents are Python dicts whose keys may be missing: the code reads every
  key but one with \<open>dict.get(key, default)\<close>. A dict is modelled as a record whose fields
  are options, \<open>None\<close> for a missing key; a present key holds a value of the type that the
  prompts ask for (a string, a list of strings, a list of objects).
\<close>

record connection =
  target :: "pystr option"
  data_flow :: "pystr option"

record component =
  name :: "pystr option"
  type :: "pystr option"
  provider :: "pystr option"
  description :: "pystr option"
  connections :: "connection list option"

record architecture_document =
  components :: "component list option"
  architecture_summary :: "pystr option"

record threat =
  category :: "pystr option"
  threat :: "pystr option"
  severity :: "pystr option"
  vulnerabilities :: "pystr list option"
  countermeasures :: "pystr list option"

record component_threat_entry =
  component_name :: "pystr option"
  component_type :: "pystr option"
  threats :: "threat list option"

record threat_report =
  stride_analysis :: "component_threat_entry list option"
  executive_summary :: "pystr option"
  overall_risk_level :: "pystr option"

text \<open>\<open>d.get(key, default)\<close> and \<open>d[key]\<close> on such a field.\<close>

definition get :: "'a option \<Rightarrow> 'a \<Rightarrow> 'a" where
  "get field dflt = (case field of None \<Rightarrow> dflt | Some v \<Rightarrow> v)"

definition getitem :: "'a option \<Rightarrow> string \<Rightarrow> error + 'a" where
  "getitem field key = (case field of None \<Rightarrow> Inl (KeyError (ascii key)) | Some v \<Rightarrow> Inr v)"

section \<open>The two model calls\<close>

text \<open>
  A chat model is asked once per call: \<open>llm.invoke([message]).content\<close> is modelled as a
  function from the messages to the text of the reply. The \<open>print\<close> calls are left out.
\<close>

datatype content_part = TextPart pystr | ImageUrlPart pystr

datatype message_content = Text pystr | Parts "content_part list"

datatype message = HumanMessage message_content

type_synonym chat_model = "message list \<Rightarrow> pystr"

definition COMPONENT_EXTRACTION_PROMPT :: pystr where
  "COMPONENT_EXTRACTION_PROMPT = concat [
     ascii ''Voc'' @ [234] @ ascii '' '' @ [233] @
       ascii '' um especialista em arquitetura de nuvem e software.'' @ [10],
     ascii ''Analise a imagem de diagrama de arquitetura de sistema fornecida e identifique TODOS os componentes vis'' @
       [237] @ ascii ''veis nela.'' @ [10],
     [10],
     ascii ''Para cada componente, forne'' @ [231] @ ascii ''a:'' @ [10],
     ascii ''1. **nome**: Um nome descritivo (ex: '' @ [34] @ ascii ''API Gateway'' @ [34] @
       ascii '', '' @ [34] @ ascii ''Banco de Dados PostgreSQL'' @ [34] @ ascii '', '' @ [34] @
       ascii ''S3 Bucket'' @ [34] @ ascii '')'' @ [10],
     ascii ''2. **tipo**: A categoria '' @ [8212] @ ascii '' um de: Usu'' @ [225] @
       ascii ''rio, Cliente, Servidor Web, Servidor de Aplica'' @ [231, 227] @
       ascii ''o, API Gateway, '' @ [10],
     ascii ''   Load Balancer, Banco de Dados, Cache, Fila de Mensagens, Armazenamento, CDN, DNS, Firewall, WAF, '' @
       [10],
     ascii ''   Provedor de Identidade, Fun'' @ [231, 227] @ ascii ''o Serverless, Cont'' @
       [234] @ ascii ''iner, Microsservi'' @ [231] @ ascii ''o, Servi'' @ [231] @
       ascii ''o de Terceiros, '' @ [10],
     ascii ''   Rede, VPN, Monitoramento, Logging, CI/CD, Outro'' @ [10],
     ascii ''3. **provedor**: Nome do servi'' @ [231] @
       ascii ''o de provedor de nuvem se identific'' @ [225] @ ascii ''vel (ex: '' @ [34] @
       ascii ''AWS EC2'' @ [34] @ ascii '', '' @ [34] @ ascii ''Azure SQL'' @ [34] @
       ascii '', '' @ [34] @ ascii ''Google Cloud Run'' @ [34] @ ascii ''), caso contr'' @
       [225] @ ascii ''rio '' @ [34] @ ascii ''Gen'' @ [233] @ ascii ''rico'' @ [34, 10],
     ascii ''4. **descri'' @ [231, 227] @ ascii ''o**: Uma breve descri'' @ [231, 227] @
       ascii ''o de seu papel na arquitetura'' @ [10],
     ascii ''5. **conex'' @ [245] @
       ascii ''es**: Lista de nomes de outros componentes aos quais este componente se conecta, e o tipo de dados fluindo'' @
       [10],
     [10],
     ascii ''IMPORTANTE: Retorne sua resposta como **JSON v'' @ [225] @
       ascii ''lido apenas**, com esta estrutura exata:'' @ [10],
     ascii ''{{'' @ [10],
     ascii ''  '' @ [34] @ ascii ''components'' @ [34] @ ascii '': ['' @ [10],
     ascii ''    {{'' @ [10],
     ascii ''      '' @ [34] @ ascii ''name'' @ [34] @ ascii '': '' @ [34] @ ascii ''...'' @
       [34] @ ascii '','' @ [10],
     ascii ''      '' @ [34] @ ascii ''type'' @ [34] @ ascii '': '' @ [34] @ ascii ''...'' @
       [34] @ ascii '','' @ [10],
     ascii ''      '' @ [34] @ ascii ''provider'' @ [34] @ ascii '': '' @ [34] @
       ascii ''...'' @ [34] @ ascii '','' @ [10],
     ascii ''      '' @ [34] @ ascii ''description'' @ [34] @ ascii '': '' @ [34] @
       ascii ''...'' @ [34] @ ascii '','' @ [10],
     ascii ''      '' @ [34] @ ascii ''connections'' @ [34] @ ascii '': ['' @ [10],
     ascii ''        {{'' @ [34] @ ascii ''target'' @ [34] @ ascii '': '' @ [34] @
       ascii ''...'' @ [34] @ ascii '', '' @ [34] @ ascii ''data_flow'' @ [34] @ ascii '': '' @
       [34] @ ascii ''...'' @ [34] @ ascii ''}}'' @ [10],
     ascii ''      ]'' @ [10],
     ascii ''    }}'' @ [10],
     ascii ''  ],'' @ [10],
     ascii ''  '' @ [34] @ ascii ''architecture_summary'' @ [34] @ ascii '': '' @ [34] @
       ascii ''Um resumo de 2-3 frases da arquitetura geral'' @ [34, 10],
     ascii ''}}'' @ [10],
     [10],
     ascii ''Retorne APENAS o objeto JSON, sem cercas markdown, sem texto extra.'' @ [10]]"

definition extraction_message :: "pystr \<Rightarrow> pystr \<Rightarrow> message" where
  "extraction_message image_b64 mime_type =
     HumanMessage (Parts
       [TextPart COMPONENT_EXTRACTION_PROMPT,
        ImageUrlPart (ascii ''data:'' @ mime_type @ ascii '';base64,'' @ image_b64)])"

definition extract_components ::
  "(pystr \<Rightarrow> 'j option) \<Rightarrow> chat_model \<Rightarrow> pystr \<Rightarrow> pystr \<Rightarrow> error + 'j" where
  "extract_components loads llm image_b64 mime_type =
     (let raw = strip (llm [extraction_message image_b64 mime_type])
      in case strip_fences raw of
           Inl e \<Rightarrow> Inl e
         | Inr raw' \<Rightarrow>
             loads_or_repair loads (ascii ''Could not parse LLM response as JSON:'' @ [10]) raw')"

text \<open>
  \<open>STRIDE_ANALYSIS_PROMPT.format(...)\<close>: the three pieces of the template around its two
  fields, with the doubled braces of the template already single.
\<close>

definition STRIDE_ANALYSIS_PROMPT_1 :: pystr where
  "STRIDE_ANALYSIS_PROMPT_1 = concat [
     ascii ''Voc'' @ [234] @ ascii '' '' @ [233] @ ascii '' um especialista s'' @ [234] @
       ascii ''nior em ciberseguran'' @ [231] @ ascii ''a especializado em modelagem de amea'' @
       [231] @ ascii ''as.'' @ [10],
     [10],
     ascii ''Dados os seguintes componentes de arquitetura de sistema e suas conex'' @ [245] @
       ascii ''es, realize uma '' @ [10],
     ascii ''an'' @ [225] @ ascii ''lise abrangente de amea'' @ [231] @
       ascii ''as **STRIDE** para CADA componente.'' @ [10],
     [10],
     ascii ''## Componentes de Arquitetura'' @ [10]]"

definition STRIDE_ANALYSIS_PROMPT_2 :: pystr where
  "STRIDE_ANALYSIS_PROMPT_2 = concat [
     [10],
     [10],
     ascii ''## Resumo da Arquitetura'' @ [10]]"

definition STRIDE_ANALYSIS_PROMPT_3 :: pystr where
  "STRIDE_ANALYSIS_PROMPT_3 = concat [
     [10],
     [10],
     ascii ''Para CADA componente, analise as seis categorias STRIDE:'' @ [10],
     ascii ''- **S '' @ [8212] @ ascii '' Spoofing (Falsifica'' @ [231, 227] @
       ascii ''o)**: Um atacante pode se passar por este componente ou por seus usu'' @ [225] @
       ascii ''rios?'' @ [10],
     ascii ''- **T '' @ [8212] @ ascii '' Tampering (Adultera'' @ [231, 227] @
       ascii ''o)**: Os dados em tr'' @ [226] @
       ascii ''nsito ou em repouso podem ser modificados?'' @ [10],
     ascii ''- **R '' @ [8212] @ ascii '' Repudiation (Rep'' @ [250] @ ascii ''dio)**: As a'' @
       [231, 245] @ ascii ''es podem ser executadas sem registro/auditoria adequados?'' @ [10],
     ascii ''- **I '' @ [8212] @ ascii '' Information Disclosure (Divulga'' @ [231, 227] @
       ascii ''o de Informa'' @ [231, 245] @ ascii ''es)**: Os dados sens'' @ [237] @
       ascii ''veis podem ser expostos?'' @ [10],
     ascii ''- **D '' @ [8212] @ ascii '' Denial of Service (Nega'' @ [231, 227] @
       ascii ''o de Servi'' @ [231] @ ascii ''o)**: O componente pode ficar indispon'' @ [237] @
       ascii ''vel?'' @ [10],
     ascii ''- **E '' @ [8212] @ ascii '' Elevation of Privilege (Eleva'' @ [231, 227] @
       ascii ''o de Privil'' @ [233] @ ascii ''gio)**: Um atacante pode obter acesso/permiss'' @
       [245] @ ascii ''es n'' @ [227] @ ascii ''o autorizados?'' @ [10],
     [10],
     ascii ''Para cada amea'' @ [231] @ ascii ''a encontrada, forne'' @ [231] @ ascii ''a:'' @
       [10],
     ascii ''1. **amea'' @ [231] @ ascii ''a**: Descri'' @ [231, 227] @ ascii ''o da amea'' @
       [231] @ ascii ''a espec'' @ [237] @ ascii ''fica'' @ [10],
     ascii ''2. **severidade**: Cr'' @ [237] @ ascii ''tica, Alta, M'' @ [233] @
       ascii ''dia ou Baixa'' @ [10],
     ascii ''3. **vulnerabilidades**: Vulnerabilidades espec'' @ [237] @
       ascii ''ficas que habilitam esta amea'' @ [231] @ ascii ''a'' @ [10],
     ascii ''4. **contramedidas**: Contramedidas acion'' @ [225] @
       ascii ''veis para mitigar a amea'' @ [231] @ ascii ''a'' @ [10],
     [10],
     ascii ''Retorne sua an'' @ [225] @ ascii ''lise como **JSON v'' @ [225] @
       ascii ''lido apenas** com esta estrutura:'' @ [10],
     ascii ''{'' @ [10],
     ascii ''  '' @ [34] @ ascii ''stride_analysis'' @ [34] @ ascii '': ['' @ [10],
     ascii ''    {'' @ [10],
     ascii ''      '' @ [34] @ ascii ''component_name'' @ [34] @ ascii '': '' @ [34] @
       ascii ''...'' @ [34] @ ascii '','' @ [10],
     ascii ''      '' @ [34] @ ascii ''component_type'' @ [34] @ ascii '': '' @ [34] @
       ascii ''...'' @ [34] @ ascii '','' @ [10],
     ascii ''      '' @ [34] @ ascii ''threats'' @ [34] @ ascii '': ['' @ [10],
     ascii ''        {'' @ [10],
     ascii ''          '' @ [34] @ ascii ''category'' @ [34] @ ascii '': '' @ [34] @
       ascii ''Spoofing|Tampering|Repudiation|Information Disclosure|Denial of Service|Elevation of Privilege'' @
       [34] @ ascii '','' @ [10],
     ascii ''          '' @ [34] @ ascii ''threat'' @ [34] @ ascii '': '' @ [34] @
       ascii ''...'' @ [34] @ ascii '','' @ [10],
     ascii ''          '' @ [34] @ ascii ''severity'' @ [34] @ ascii '': '' @ [34] @
       ascii ''Cr'' @ [237] @ ascii ''tica|Alta|M'' @ [233] @ ascii ''dia|Baixa'' @ [34] @
       ascii '','' @ [10],
     ascii ''          '' @ [34] @ ascii ''vulnerabilities'' @ [34] @ ascii '': ['' @ [34] @
       ascii ''...'' @ [34] @ ascii ''],'' @ [10],
     ascii ''          '' @ [34] @ ascii ''countermeasures'' @ [34] @ ascii '': ['' @ [34] @
       ascii ''...'' @ [34] @ ascii '']'' @ [10],
     ascii ''        }'' @ [10],
     ascii ''      ]'' @ [10],
     ascii ''    }'' @ [10],
     ascii ''  ],'' @ [10],
     ascii ''  '' @ [34] @ ascii ''overall_risk_level'' @ [34] @ ascii '': '' @ [34] @
       ascii ''Cr'' @ [237] @ ascii ''tica|Alta|M'' @ [233] @ ascii ''dia|Baixa'' @ [34] @
       ascii '','' @ [10],
     ascii ''  '' @ [34] @ ascii ''executive_summary'' @ [34] @ ascii '': '' @ [34] @
       ascii ''Um resumo executivo de 3-5 frases dos achados mais cr'' @ [237] @
       ascii ''ticos'' @ [34, 10],
     ascii ''}'' @ [10],
     [10],
     ascii ''Retorne APENAS o objeto JSON, sem cercas markdown, sem texto extra.'' @ [10]]"

text \<open>\<open>json.dumps(..., indent=2)\<close> is the standard library's: the parameter \<open>dumps\<close>.\<close>

definition stride_message :: "(component list \<Rightarrow> pystr) \<Rightarrow> architecture_document \<Rightarrow> message" where
  "stride_message dumps components_data =
     (let components_json = dumps (get (components components_data) []);
          summary = get (architecture_summary components_data) (ascii ''N/A'');
          prompt = STRIDE_ANALYSIS_PROMPT_1 @ components_json @ STRIDE_ANALYSIS_PROMPT_2 @
                   summary @ STRIDE_ANALYSIS_PROMPT_3
      in HumanMessage (Text prompt))"

definition analyze_stride ::
  "(pystr \<Rightarrow> 'j option) \<Rightarrow> (component list \<Rightarrow> pystr) \<Rightarrow> chat_model \<Rightarrow>
   architecture_document \<Rightarrow> error + 'j" where
  "analyze_stride loads dumps llm components_data =
     (let raw = strip (llm [stride_message dumps components_data])
      in case strip_fences raw of
           Inl e \<Rightarrow> Inl e
         | Inr raw' \<Rightarrow>
             loads_or_repair loads (ascii ''Could not parse STRIDE response as JSON:'' @ [10]) raw')"

section \<open>Loading the image\<close>

text \<open>
  The file system, as \<open>load_image_as_base64\<close> sees it: at a path there is nothing, or a
  regular file with its bytes, or a directory, or a file that the process may not read.
  \<open>Path.exists()\<close> is true for the last three; \<open>open(path, "rb")\<close> succeeds on the
  regular file only, and the error of the others carries the path.
\<close>

type_synonym byte = "8 word"

datatype file_node = RegularFile "byte list" | Directory | Unreadable

type_synonym image_files = "pystr \<rightharpoonup> file_node"

definition exists :: "image_files \<Rightarrow> pystr \<Rightarrow> bool" where
  "exists fs path \<longleftrightarrow> fs path \<noteq> None"

definition open_rb_read :: "image_files \<Rightarrow> pystr \<Rightarrow> error + byte list" where
  "open_rb_read fs path =
     (case fs path of
        None \<Rightarrow> Inl (FileNotFoundError path)
      | Some (RegularFile bytes) \<Rightarrow> Inr bytes
      | Some Directory \<Rightarrow> Inl (IsADirectoryError path)
      | Some Unreadable \<Rightarrow> Inl (PermissionError path))"

text \<open>
  \<open>Path(image_path).suffix\<close> of POSIX \<open>pathlib\<close> (CPython up to 3.13): the name is the last
  component that is neither empty nor a dot, and the suffix starts at the last dot of the
  name, unless that dot is the first or the last character.
\<close>

fun split_all :: "nat \<Rightarrow> pystr \<Rightarrow> pystr list" where
  "split_all c [] = [[]]"
| "split_all c (x # xs) =
     (if x = c then [] # split_all c xs
      else (case split_all c xs of [] \<Rightarrow> [[x]] | p # ps \<Rightarrow> (x # p) # ps))"

definition path_name :: "pystr \<Rightarrow> pystr" where
  "path_name p =
     (case filter (\<lambda>x. x \<noteq> [] \<and> x \<noteq> [46]) (split_all 47 p) of
        [] \<Rightarrow> []
      | part # parts \<Rightarrow> last (part # parts))"

definition suffix :: "pystr \<Rightarrow> pystr" where
  "suffix p =
     (let name = path_name p; i = str_rfind name 46
      in if 0 < i \<and> i < int (length name) - 1 then drop (nat i) name else [])"

text \<open>
  \<open>str.lower()\<close> on the letters of ASCII. Python also lowers letters beyond ASCII, but
  no suffix with such a letter lowers to one of the six keys of \<open>mime_map\<close>, so the
  look-up below finds the same.
\<close>

definition lower :: "pystr \<Rightarrow> pystr" where
  "lower s = map (\<lambda>c. if 65 \<le> c \<and> c \<le> 90 then c + 32 else c) s"

text \<open>\<open>base64.standard_b64encode(data).decode("utf-8")\<close>.\<close>

definition b64_alphabet :: pystr where
  "b64_alphabet = ascii ''ABCDEFGHIJKLMNOPQRSTUVWXYZabcdefghijklmnopqrstuvwxyz0123456789+/''"

definition b64_digit :: "nat \<Rightarrow> nat" where
  "b64_digit n = b64_alphabet ! (n mod 64)"

fun standard_b64encode :: "byte list \<Rightarrow> pystr" where
  "standard_b64encode [] = []"
| "standard_b64encode [a] =
     (let x = unat a in [b64_digit (x div 4), b64_digit ((x mod 4) * 16), 61, 61])"
| "standard_b64encode [a, b] =
     (let x = unat a; y = unat b
      in [b64_digit (x div 4), b64_digit ((x mod 4) * 16 + y div 16),
          b64_digit ((y mod 16) * 4), 61])"
| "standard_b64encode (a # b # c # rest) =
     (let x = unat a; y = unat b; z = unat c
      in [b64_digit (x div 4), b64_digit ((x mod 4) * 16 + y div 16),
          b64_digit ((y mod 16) * 4 + z div 64), b64_digit (z mod 64)]
         @ standard_b64encode rest)"

definition mime_map :: "(pystr \<times> pystr) list" where
  "mime_map =
     [(ascii ''.png'', ascii ''image/png''),
      (ascii ''.jpg'', ascii ''image/jpeg''),
      (ascii ''.jpeg'', ascii ''image/jpeg''),
      (ascii ''.gif'', ascii ''image/gif''),
      (ascii ''.webp'', ascii ''image/webp''),
      (ascii ''.bmp'', ascii ''image/bmp'')]"

definition load_image_as_base64 :: "image_files \<Rightarrow> pystr \<Rightarrow> error + pystr \<times> pystr" where
  "load_image_as_base64 fs image_path =
     (if \<not> exists fs image_path then
        Inl (FileNotFoundError (ascii ''Image not found: '' @ image_path))
      else
        (let ext = lower (suffix image_path);
             mime_type = get (map_of mime_map ext) (ascii ''image/png'')
         in case open_rb_read fs image_path of
              Inl e \<Rightarrow> Inl e
            | Inr bytes \<Rightarrow>
                (let data = standard_b64encode bytes
                 in Inr (data, mime_type))))"

section \<open>The report\<close>

definition SEVERITY_EMOJI :: "(pystr \<times> pystr) list" where
  "SEVERITY_EMOJI =
     [(ascii ''Critical'', [128308]),
      (ascii ''High'', [128992]),
      (ascii ''Medium'', [128993]),
      (ascii ''Low'', [128994])]"

text \<open>The white circle that stands for a severity without an emoji.\<close>

definition white_circle :: pystr where
  "white_circle = [9898]"

definition na :: pystr where
  "na = ascii ''N/A''"

text \<open>Lines 257--264: the header. \<open>now\<close> is the formatted \<open>datetime.now()\<close>.\<close>

definition header_lines :: "pystr \<Rightarrow> pystr \<Rightarrow> pystr \<Rightarrow> pystr list" where
  "header_lines now image_path overall_risk =
     [ascii ''# '' @ [128737, 65039] @ ascii '' Relat'' @ [243] @ ascii ''rio de Modelagem de Amea'' @ [231] @ ascii ''as STRIDE'',
      [],
      ascii ''**Gerado em:** '' @ now @ ascii ''  '',
      ascii ''**Diagrama de Origem:** '' @ [96] @ image_path @ [96] @ ascii ''  '',
      ascii ''**N'' @ [237] @ ascii ''vel de Risco Geral:** '' @ get (map_of SEVERITY_EMOJI overall_risk) white_circle @
        ascii '' **'' @ overall_risk @ ascii ''**'',
      [],
      ascii ''---'',
      []]"

text \<open>Lines 267--276: the two summaries.\<close>

definition summary_lines :: "pystr \<Rightarrow> pystr \<Rightarrow> pystr list" where
  "summary_lines exec_summary arch_summary =
     [ascii ''## '' @ [128203] @ ascii '' Resumo Executivo'',
      [],
      exec_summary,
      [],
      ascii ''## '' @ [127959, 65039] @ ascii '' Vis'' @ [227] @ ascii ''o Geral da Arquitetura'',
      [],
      arch_summary,
      []]"

text \<open>Lines 279--288: the table of components, numbered from 1.\<close>

definition component_row :: "nat \<Rightarrow> component \<Rightarrow> pystr" where
  "component_row i cmp =
     ascii ''| '' @ str_nat i @ ascii '' | **'' @ get (name cmp) na @ ascii ''** | '' @
     get (type cmp) na @ ascii '' '' @ ascii ''| '' @ get (provider cmp) na @
     ascii '' | '' @ get (description cmp) na @ ascii '' |''"

definition component_lines :: "component list \<Rightarrow> pystr list" where
  "component_lines comps =
     [ascii ''## '' @ [129513] @ ascii '' Componentes Identificados'',
      [],
      ascii ''| # | Componente | Tipo | Provedor | Descri'' @ [231, 227] @ ascii ''o |'',
      ascii ''|---|-----------|------|----------|-----------|'']
     @ map (\<lambda>(i, cmp). component_row i cmp) (enumerate 1 comps)
     @ [[]]"

text \<open>
  Lines 291--301: the data flows. A component with a connection is read with
  \<open>comp['name']\<close>, which raises KeyError when the key is missing.
\<close>

definition connection_line :: "connection \<Rightarrow> pystr" where
  "connection_line conn =
     (let tgt = get (target conn) (ascii ''?'');
          flow = get (data_flow conn) (ascii ''?'')
      in ascii ''- '' @ [8594] @ ascii '' **'' @ tgt @ ascii ''**: '' @ flow)"

fun data_flow_loop :: "component list \<Rightarrow> error + pystr list" where
  "data_flow_loop [] = Inr []"
| "data_flow_loop (cmp # rest) =
     (let conns = get (connections cmp) []
      in if conns \<noteq> [] then
           (case getitem (name cmp) ''name'' of
              Inl e \<Rightarrow> Inl e
            | Inr n \<Rightarrow>
                (case data_flow_loop rest of
                   Inl e \<Rightarrow> Inl e
                 | Inr ls \<Rightarrow>
                     Inr ([ascii ''### '' @ n] @ map connection_line conns @ [[]] @ ls)))
         else data_flow_loop rest)"

definition data_flow_lines :: "component list \<Rightarrow> error + pystr list" where
  "data_flow_lines comps =
     (case data_flow_loop comps of
        Inl e \<Rightarrow> Inl e
      | Inr ls \<Rightarrow> Inr ([ascii ''## '' @ [128260] @ ascii '' Fluxo de Dados'', []] @ ls))"

text \<open>Lines 304--336: one block per entry of the analysis.\<close>

definition threat_row :: "threat \<Rightarrow> pystr" where
  "threat_row t =
     (let cat = get (category t) na;
          threat_desc = get (threat t) na;
          sev = get (severity t) na;
          emoji = get (map_of SEVERITY_EMOJI sev) white_circle;
          vulns = join (ascii ''; '') (get (vulnerabilities t) []);
          counters = join (ascii ''; '') (get (countermeasures t) [])
      in ascii ''| **'' @ cat @ ascii ''** | '' @ threat_desc @ ascii '' | '' @ emoji @
         ascii '' '' @ sev @ ascii '' | '' @ vulns @ ascii '' | '' @ counters @ ascii '' |'')"

definition entry_lines :: "component_threat_entry \<Rightarrow> pystr list" where
  "entry_lines entry =
     (let comp_name = get (component_name entry) (ascii ''Desconhecido'');
          comp_type = get (component_type entry) (ascii ''Desconhecido'');
          ts = get (threats entry) []
      in [ascii ''### '' @ [128313] @ ascii '' '' @ comp_name @ ascii '' ('' @ comp_type @ ascii '')'', []]
         @ (if ts = [] then [ascii ''_Nenhuma amea'' @ [231] @ ascii ''a significativa identificada._'', []]
            else [ascii ''| Categoria | Amea'' @ [231] @ ascii ''a | Severidade | Vulnerabilidades | Contramedidas |'',
                  ascii ''|-----------|--------|-----------|-------------------|----|'']
                 @ map threat_row ts @ [[]]))"

definition stride_lines :: "component_threat_entry list \<Rightarrow> pystr list" where
  "stride_lines entries =
     [ascii ''---'',
      [],
      ascii ''## '' @ [128269] @ ascii '' An'' @ [225] @ ascii ''lise de Amea'' @ [231] @ ascii ''as STRIDE'',
      []]
     @ concat (map entry_lines entries)"

text \<open>Lines 339--352: the heading of the matrix, and the two dicts of counters.\<close>

definition matrix_lines :: "pystr list" where
  "matrix_lines =
     [ascii ''---'',
      [],
      ascii ''## '' @ [128202] @ ascii '' Matriz de Resumo de Risco'',
      []]"

type_synonym counts = "pystr \<rightharpoonup> nat"

definition severity_labels :: "pystr list" where
  "severity_labels =
     [ascii ''Cr'' @ [237] @ ascii ''tica'', ascii ''Alta'', ascii ''M'' @ [233] @ ascii ''dia'', ascii ''Baixa'',
      ascii ''Critical'', ascii ''High'', ascii ''Medium'', ascii ''Low'']"

definition initial_severity_counts :: counts where
  "initial_severity_counts =
     map_of
       [(ascii ''Cr'' @ [237] @ ascii ''tica'', 0), (ascii ''Alta'', 0), (ascii ''M'' @ [233] @ ascii ''dia'', 0), (ascii ''Baixa'', 0),
        (ascii ''Critical'', 0), (ascii ''High'', 0), (ascii ''Medium'', 0), (ascii ''Low'', 0)]"

text \<open>\<open>d[k] = d.get(k, 0) + 1\<close>.\<close>

definition increment :: "counts \<Rightarrow> pystr \<Rightarrow> counts" where
  "increment d k = d(k \<mapsto> get (d k) 0 + 1)"

definition count_threat :: "threat \<Rightarrow> counts \<times> counts \<Rightarrow> counts \<times> counts" where
  "count_threat t = (\<lambda>(severity_counts, category_counts).
     let sev = get (severity t) (ascii ''Baixa'');
         severity_counts = increment severity_counts sev;
         cat = get (category t) (ascii ''Outro'');
         category_counts = increment category_counts cat
     in (severity_counts, category_counts))"

definition count_threats :: "component_threat_entry list \<Rightarrow> counts \<times> counts" where
  "count_threats entries =
     fold (\<lambda>entry. fold count_threat (get (threats entry) [])) entries
       (initial_severity_counts, Map.empty)"

text \<open>Lines 354--362: a row for every label whose emoji is not the white circle.\<close>

definition severity_row :: "counts \<Rightarrow> pystr \<Rightarrow> pystr list" where
  "severity_row severity_counts sev =
     (let emoji = get (map_of SEVERITY_EMOJI sev) white_circle
      in if emoji \<noteq> white_circle then
           [ascii ''| '' @ emoji @ ascii '' '' @ sev @ ascii '' | '' @
            str_nat (get (severity_counts sev) 0) @ ascii '' |'']
         else [])"

definition severity_lines :: "counts \<Rightarrow> pystr list" where
  "severity_lines severity_counts =
     [ascii ''### Por Severidade'',
      [],
      ascii ''| Severidade | Quantidade |'',
      ascii ''|----------|-------|'']
     @ concat (map (severity_row severity_counts) severity_labels)
     @ [[]]"

text \<open>Lines 364--373: a row for each of the six categories.\<close>

definition stride_categories :: "pystr list" where
  "stride_categories =
     [ascii ''Spoofing'', ascii ''Tampering'', ascii ''Repudiation'',
      ascii ''Information Disclosure'', ascii ''Denial of Service'', ascii ''Elevation of Privilege'']"

definition category_row :: "counts \<Rightarrow> pystr \<Rightarrow> pystr" where
  "category_row category_counts cat =
     ascii ''| '' @ cat @ ascii '' | '' @ str_nat (get (category_counts cat) 0) @ ascii '' |''"

definition category_lines :: "counts \<Rightarrow> pystr list" where
  "category_lines category_counts =
     [ascii ''### Por Categoria STRIDE'',
      [],
      ascii ''| Categoria | Quantidade |'',
      ascii ''|----------|-------|'']
     @ map (category_row category_counts) stride_categories
     @ [[]]"

text \<open>Lines 376--383: the footer.\<close>

definition footer_lines :: "pystr list" where
  "footer_lines =
     [ascii ''---'',
      [],
      ascii ''*Este relat'' @ [243] @ ascii ''rio foi gerado automaticamente usando an'' @ [225] @ ascii ''lise de arquitetura com IA '' @
      ascii ''e modelagem de amea'' @ [231] @ ascii ''as STRIDE. Os achados devem ser revisados e validados por um '' @
      ascii ''profissional de seguran'' @ [231] @ ascii ''a qualificado.*'',
      []]"

text \<open>
  Lines 247--385: the list \<open>lines\<close> when the function reaches \<open>"\n".join(lines)\<close>, or the
  KeyError of the data-flow loop.
\<close>

definition report_lines ::
  "pystr \<Rightarrow> architecture_document \<Rightarrow> threat_report \<Rightarrow> pystr \<Rightarrow> error + pystr list" where
  "report_lines now components_data stride_data image_path =
     (let comps = get (components components_data) [];
          arch_summary = get (architecture_summary components_data) na;
          analysis = get (stride_analysis stride_data) [];
          exec_summary = get (executive_summary stride_data) na;
          overall_risk = get (overall_risk_level stride_data) na
      in case data_flow_lines comps of
           Inl e \<Rightarrow> Inl e
         | Inr flow \<Rightarrow>
             (let (severity_counts, category_counts) = count_threats analysis
              in Inr (header_lines now image_path overall_risk
                      @ summary_lines exec_summary arch_summary
                      @ component_lines comps
                      @ flow
                      @ stride_lines analysis
                      @ matrix_lines
                      @ severity_lines severity_counts
                      @ category_lines category_counts
                      @ footer_lines)))"

text \<open>
  \<open>generate_report\<close>: the text is written to \<open>output_path\<close> and returned. The files that
  the function can write are a map from a path to the text stored there (the file holds
  its UTF-8 encoding); an error leaves them as they were, since it is raised before the
  file is opened.
\<close>

type_synonym text_files = "pystr \<rightharpoonup> pystr"

definition generate_report ::
  "pystr \<Rightarrow> text_files \<Rightarrow> architecture_document \<Rightarrow> threat_report \<Rightarrow> pystr \<Rightarrow> pystr \<Rightarrow>
   (error + pystr) \<times> text_files" where
  "generate_report now files components_data stride_data image_path output_path =
     (case report_lines now components_data stride_data image_path of
        Inl e \<Rightarrow> (Inl e, files)
      | Inr ls \<Rightarrow>
          (let report = join [10] ls
           in (Inr report, files(output_path \<mapsto> report))))"

section \<open>The documents as objects\<close>

text \<open>
  Python passes the two documents by reference: a dict or a list is an object that any
  holder of a reference can change. To say what a function leaves unchanged, the objects
  are placed in a heap, a list of objects whose indices are the addresses; a new object
  goes to the end. A value in a dict or a list is a string, an integer, or a reference.
\<close>

type_synonym addr = nat

datatype pyval = Str pystr | Num nat | Ref addr

datatype pyobj = Dict "(pystr \<times> pyval) list" | PyList "pyval list"

type_synonym heap = "pyobj list"

definition new :: "pyobj \<Rightarrow> heap \<Rightarrow> addr \<times> heap" where
  "new obj h = (length h, h @ [obj])"

text \<open>\<open>xs.append(v)\<close> and \<open>d[k] = v\<close> change the object at an address.\<close>

definition list_append :: "addr \<Rightarrow> pyval \<Rightarrow> heap \<Rightarrow> heap" where
  "list_append l v h =
     (if l < length h then
        (case h ! l of PyList vs \<Rightarrow> h[l := PyList (vs @ [v])] | Dict kv \<Rightarrow> h)
      else h)"

definition setitem :: "addr \<Rightarrow> pystr \<Rightarrow> pyval \<Rightarrow> heap \<Rightarrow> heap" where
  "setitem d k v h =
     (if d < length h then
        (case h ! d of Dict kv \<Rightarrow> h[d := Dict (AList.update k v kv)] | PyList vs \<Rightarrow> h)
      else h)"

text \<open>Reading: the object behind a reference, a dict of counters, a list of strings.\<close>

definition deref :: "heap \<Rightarrow> pyval \<Rightarrow> pyobj option" where
  "deref h v = (case v of Ref a \<Rightarrow> if a < length h then Some (h ! a) else None | _ \<Rightarrow> None)"

definition dict_of :: "heap \<Rightarrow> pyval \<Rightarrow> (pystr \<times> pyval) list option" where
  "dict_of h v = (case deref h v of Some (Dict kv) \<Rightarrow> Some kv | _ \<Rightarrow> None)"

definition list_of :: "heap \<Rightarrow> pyval \<Rightarrow> pyval list option" where
  "list_of h v = (case deref h v of Some (PyList vs) \<Rightarrow> Some vs | _ \<Rightarrow> None)"

definition counters :: "(pystr \<times> pyval) list \<Rightarrow> counts" where
  "counters kv = (\<lambda>k. case map_of kv k of Some (Num n) \<Rightarrow> Some n | _ \<Rightarrow> None)"

definition counts_of :: "heap \<Rightarrow> addr \<Rightarrow> counts" where
  "counts_of h d = (case dict_of h (Ref d) of Some kv \<Rightarrow> counters kv | None \<Rightarrow> Map.empty)"

definition read_str :: "pyval \<Rightarrow> pystr option" where
  "read_str v = (case v of Str s \<Rightarrow> Some s | _ \<Rightarrow> None)"

definition strings_of :: "heap \<Rightarrow> addr \<Rightarrow> pystr list" where
  "strings_of h l =
     (case list_of h (Ref l) of
        Some vs \<Rightarrow> map (\<lambda>v. case v of Str s \<Rightarrow> s | _ \<Rightarrow> []) vs
      | None \<Rightarrow> [])"

text \<open>
  The document that a reference stands for, when the objects have the shape of the
  schema: a key is missing, or holds a string, or a reference to a list. The result is
  \<open>None\<close> for objects of another shape, about which the model says nothing.
\<close>

definition str_field :: "(pystr \<times> pyval) list \<Rightarrow> string \<Rightarrow> pystr option option" where
  "str_field kv key =
     (case map_of kv (ascii key) of
        None \<Rightarrow> Some None
      | Some v \<Rightarrow> map_option Some (read_str v))"

definition list_field ::
  "heap \<Rightarrow> (pyval \<Rightarrow> 'a option) \<Rightarrow> (pystr \<times> pyval) list \<Rightarrow> string \<Rightarrow> 'a list option option" where
  "list_field h read kv key =
     (case map_of kv (ascii key) of
        None \<Rightarrow> Some None
      | Some v \<Rightarrow>
          (case list_of h v of
             None \<Rightarrow> None
           | Some vs \<Rightarrow> map_option Some (those (map read vs))))"

definition read_connection :: "heap \<Rightarrow> pyval \<Rightarrow> connection option" where
  "read_connection h v =
     do {
       kv \<leftarrow> dict_of h v;
       tgt \<leftarrow> str_field kv ''target'';
       flow \<leftarrow> str_field kv ''data_flow'';
       Some \<lparr>target = tgt, data_flow = flow\<rparr>
     }"

definition read_component :: "heap \<Rightarrow> pyval \<Rightarrow> component option" where
  "read_component h v =
     do {
       kv \<leftarrow> dict_of h v;
       n \<leftarrow> str_field kv ''name'';
       ty \<leftarrow> str_field kv ''type'';
       p \<leftarrow> str_field kv ''provider'';
       d \<leftarrow> str_field kv ''description'';
       cs \<leftarrow> list_field h (read_connection h) kv ''connections'';
       Some \<lparr>name = n, type = ty, provider = p, description = d, connections = cs\<rparr>
     }"

definition read_document :: "heap \<Rightarrow> pyval \<Rightarrow> architecture_document option" where
  "read_document h v =
     do {
       kv \<leftarrow> dict_of h v;
       cs \<leftarrow> list_field h (read_component h) kv ''components'';
       s \<leftarrow> str_field kv ''architecture_summary'';
       Some \<lparr>components = cs, architecture_summary = s\<rparr>
     }"

definition read_threat :: "heap \<Rightarrow> pyval \<Rightarrow> threat option" where
  "read_threat h v =
     do {
       kv \<leftarrow> dict_of h v;
       c \<leftarrow> str_field kv ''category'';
       t \<leftarrow> str_field kv ''threat'';
       s \<leftarrow> str_field kv ''severity'';
       vs \<leftarrow> list_field h read_str kv ''vulnerabilities'';
       cs \<leftarrow> list_field h read_str kv ''countermeasures'';
       Some \<lparr>category = c, threat = t, severity = s, vulnerabilities = vs,
             countermeasures = cs\<rparr>
     }"

definition read_entry :: "heap \<Rightarrow> pyval \<Rightarrow> component_threat_entry option" where
  "read_entry h v =
     do {
       kv \<leftarrow> dict_of h v;
       n \<leftarrow> str_field kv ''component_name'';
       ty \<leftarrow> str_field kv ''component_type'';
       ts \<leftarrow> list_field h (read_threat h) kv ''threats'';
       Some \<lparr>component_name = n, component_type = ty, threats = ts\<rparr>
     }"

definition read_report :: "heap \<Rightarrow> pyval \<Rightarrow> threat_report option" where
  "read_report h v =
     do {
       kv \<leftarrow> dict_of h v;
       es \<leftarrow> list_field h (read_entry h) kv ''stride_analysis'';
       s \<leftarrow> str_field kv ''executive_summary'';
       r \<leftarrow> str_field kv ''overall_risk_level'';
       Some \<lparr>stride_analysis = es, executive_summary = s, overall_risk_level = r\<rparr>
     }"

text \<open>
  Every object of \<open>h\<close> is still at its address in \<open>h'\<close>, with the same content.
\<close>

definition unchanged :: "heap \<Rightarrow> heap \<Rightarrow> bool" where
  "unchanged h h' \<longleftrightarrow> length h \<le> length h' \<and> (\<forall>a < length h. h' ! a = h ! a)"

section \<open>The functions on objects\<close>

text \<open>
  \<open>generate_report\<close> with its objects. The function only reads the two documents. What
  it changes are three objects that it creates: the list \<open>lines\<close>, to which each block of
  the report is appended line by line, and the dicts \<open>severity_counts\<close> and
  \<open>category_counts\<close>, in which lines 347--352 count. The KeyError of line 296 leaves the
  function when \<open>lines\<close> already holds the lines written before.
\<close>

definition extend :: "addr \<Rightarrow> pystr list \<Rightarrow> heap \<Rightarrow> heap" where
  "extend l xs h = fold (\<lambda>x. list_append l (Str x)) xs h"

definition count_threat_h :: "addr \<Rightarrow> addr \<Rightarrow> threat \<Rightarrow> heap \<Rightarrow> heap" where
  "count_threat_h severity_counts category_counts t h =
     (let sev = get (severity t) (ascii ''Baixa'');
          h = setitem severity_counts sev (Num (get (counts_of h severity_counts sev) 0 + 1)) h;
          cat = get (category t) (ascii ''Outro'');
          h = setitem category_counts cat (Num (get (counts_of h category_counts cat) 0 + 1)) h
      in h)"

definition initial_severity_dict :: pyobj where
  "initial_severity_dict =
     Dict
       [(ascii ''Cr'' @ [237] @ ascii ''tica'', Num 0), (ascii ''Alta'', Num 0), (ascii ''M'' @ [233] @ ascii ''dia'', Num 0), (ascii ''Baixa'', Num 0),
        (ascii ''Critical'', Num 0), (ascii ''High'', Num 0), (ascii ''Medium'', Num 0), (ascii ''Low'', Num 0)]"

definition generate_report_h ::
  "pystr \<Rightarrow> heap \<Rightarrow> text_files \<Rightarrow> pyval \<Rightarrow> pyval \<Rightarrow> pystr \<Rightarrow> pystr \<Rightarrow>
   ((error + pystr) \<times> heap \<times> text_files) option" where
  "generate_report_h now h files components_data stride_data image_path output_path =
     do {
       cd \<leftarrow> read_document h components_data;
       sd \<leftarrow> read_report h stride_data;
       Some
        (let comps = get (components cd) [];
             arch_summary = get (architecture_summary cd) na;
             analysis = get (stride_analysis sd) [];
             exec_summary = get (executive_summary sd) na;
             overall_risk = get (overall_risk_level sd) na;
             (lines, h) = new (PyList []) h;
             h = extend lines (header_lines now image_path overall_risk) h;
             h = extend lines (summary_lines exec_summary arch_summary) h;
             h = extend lines (component_lines comps) h
         in case data_flow_lines comps of
              Inl e \<Rightarrow> (Inl e, h, files)
            | Inr flow \<Rightarrow>
                (let h = extend lines flow h;
                     h = extend lines (stride_lines analysis) h;
                     h = extend lines matrix_lines h;
                     (severity_counts, h) = new initial_severity_dict h;
                     (category_counts, h) = new (Dict []) h;
                     h = fold (\<lambda>entry. fold (count_threat_h severity_counts category_counts)
                                        (get (threats entry) [])) analysis h;
                     h = extend lines (severity_lines (counts_of h severity_counts)) h;
                     h = extend lines (category_lines (counts_of h category_counts)) h;
                     h = extend lines footer_lines h;
                     report = join [10] (strings_of h lines)
                 in (Inr report, h, files(output_path \<mapsto> report))))
     }"

text \<open>
  \<open>analyze_stride\<close> with its objects: it reads the document, and the only objects that
  appear are those that \<open>json.loads\<close> builds for its result. Here \<open>loads\<close> takes the heap
  and returns it with the new objects.
\<close>

definition loads_or_repair_h ::
  "(pystr \<Rightarrow> heap \<Rightarrow> (pyval \<times> heap) option) \<Rightarrow> pystr \<Rightarrow> pystr \<Rightarrow> heap \<Rightarrow>
   (error + pyval) \<times> heap" where
  "loads_or_repair_h loads msg raw h =
     (case loads raw h of
        Some (v, h') \<Rightarrow> (Inr v, h')
      | None \<Rightarrow>
          (let start = str_find raw 123; end = str_rfind raw 125 + 1
           in if start \<noteq> - 1 \<and> end > start then
                (case loads (str_slice raw start end) h of
                   Some (v, h') \<Rightarrow> (Inr v, h')
                 | None \<Rightarrow> (Inl JSONDecodeError, h))
              else (Inl (ValueError (msg @ raw)), h)))"

definition analyze_stride_h ::
  "(pystr \<Rightarrow> heap \<Rightarrow> (pyval \<times> heap) option) \<Rightarrow> (component list \<Rightarrow> pystr) \<Rightarrow> chat_model \<Rightarrow>
   heap \<Rightarrow> pyval \<Rightarrow> ((error + pyval) \<times> heap) option" where
  "analyze_stride_h loads dumps llm h components_data =
     do {
       cd \<leftarrow> read_document h components_data;
       Some
        (let raw = strip (llm [stride_message dumps cd])
         in case strip_fences raw of
              Inl e \<Rightarrow> (Inl e, h)
            | Inr raw' \<Rightarrow>
                loads_or_repair_h loads
                  (ascii ''Could not parse STRIDE response as JSON:'' @ [10]) raw' h)
     }"


section \<open>The threats of a report\<close>

text \<open>
  The threats of all entries, in the order in which the two loops of lines 347--348 visit
  them, and the number of them whose field (\<open>severity\<close> or \<open>category\<close>) is a given label.
\<close>

definition all_threats :: "threat_report \<Rightarrow> threat list" where
  "all_threats stride_data =
     concat (map (\<lambda>entry. get (threats entry) []) (get (stride_analysis stride_data) []))"

definition count_with :: "(threat \<Rightarrow> pystr option) \<Rightarrow> pystr \<Rightarrow> threat list \<Rightarrow> nat" where
  "count_with field label ts = length (filter (\<lambda>t. field t = Some label) ts)"

section \<open>Sample inputs\<close>

text \<open>A stand-in for \<open>json.loads\<close> that accepts the empty object only.\<close>

definition toy_loads :: "pystr \<Rightarrow> nat option" where
  "toy_loads s = (if s = [123, 125] then Some 0 else None)"

definition sample_files :: image_files where
  "sample_files =
     map_of
       [(ascii ''img'', Directory),
        (ascii ''img/Diagram.v2.JPG'', RegularFile [77, 97, 110, 33]),
        (ascii ''img/locked.png'', Unreadable)]"

text \<open>Sample documents: every key missing, and reports with a few threats.\<close>

definition empty_document :: architecture_document where
  "empty_document = \<lparr>components = None, architecture_summary = None\<rparr>"

definition threat_of :: "pystr option \<Rightarrow> pystr option \<Rightarrow> threat" where
  "threat_of cat sev =
     \<lparr>category = cat, threat = None, severity = sev, vulnerabilities = None,
      countermeasures = None\<rparr>"

definition report_of :: "threat list list \<Rightarrow> threat_report" where
  "report_of tss =
     \<lparr>stride_analysis =
        Some (map (\<lambda>ts. \<lparr>component_name = None, component_type = None, threats = Some ts\<rparr>) tss),
      executive_summary = None, overall_risk_level = None\<rparr>"

definition sample_report :: threat_report where
  "sample_report =
     report_of
       [[threat_of (Some (ascii ''Spoofing'')) (Some (ascii ''Critical'')),
         threat_of (Some (ascii ''Phishing'')) (Some (ascii ''Critical''))],
        [threat_of (Some (ascii ''Tampering'')) (Some (ascii ''Low''))]]"

definition portuguese_report :: threat_report where
  "portuguese_report =
     report_of [[threat_of (Some (ascii ''Spoofing'')) (Some (ascii ''Cr'' @ [237] @ ascii ''tica''))]]"

definition english_report :: threat_report where
  "english_report = report_of [[threat_of (Some (ascii ''Spoofing'')) (Some (ascii ''Critical''))]]"

definition mixed_report :: threat_report where
  "mixed_report =
     report_of
       [[threat_of None (Some (ascii ''Cr'' @ [237] @ ascii ''tica'')),
         threat_of None (Some (ascii ''Critical'')),
         threat_of None None],
        [threat_of None (Some (ascii ''Alta''))]]"

definition bare_component :: component where
  "bare_component =
     \<lparr>name = None, type = None, provider = None, description = None, connections = None\<rparr>"

definition bare_document :: architecture_document where
  "bare_document = \<lparr>components = Some [bare_component], architecture_summary = None\<rparr>"

definition nameless_document :: architecture_document where
  "nameless_document =
     \<lparr>components =
        Some [bare_component,
              bare_component\<lparr>connections := Some [\<lparr>target = None, data_flow = None\<rparr>]\<rparr>],
      architecture_summary = None\<rparr>"

text \<open>A web server that talks to a database, and one Spoofing threat on each.\<close>

definition web_server :: component where
  "web_server =
     \<lparr>name = Some (ascii ''Web''), type = Some (ascii ''Servidor Web''), provider = None,
      description = None,
      connections = Some [\<lparr>target = Some (ascii ''DB''), data_flow = Some (ascii ''SQL'')\<rparr>]\<rparr>"

definition database :: component where
  "database =
     \<lparr>name = Some (ascii ''DB''), type = Some (ascii ''Banco de Dados''), provider = None,
      description = None, connections = Some []\<rparr>"

definition web_db_document :: architecture_document where
  "web_db_document =
     \<lparr>components = Some [web_server, database], architecture_summary = None\<rparr>"

definition spoofing_threat :: threat where
  "spoofing_threat = threat_of (Some (ascii ''Spoofing'')) (Some (ascii ''Alta''))"

definition web_db_report :: threat_report where
  "web_db_report =
     \<lparr>stride_analysis =
        Some [\<lparr>component_name = Some (ascii ''Web''), component_type = None,
                threats = Some [spoofing_threat]\<rparr>,
              \<lparr>component_name = Some (ascii ''DB''), component_type = None,
                threats = Some [spoofing_threat]\<rparr>],
      executive_summary = None, overall_risk_level = None\<rparr>"

text \<open>
  A heap with a document at address 0 and a report at address 5, and a stand-in for
  \<open>json.loads\<close> that builds an empty dict for the text \<open>{}\<close>.
\<close>

definition sample_heap :: heap where
  "sample_heap =
     [Dict [(ascii ''components'', Ref 1), (ascii ''architecture_summary'', Str (ascii ''two''))],
      PyList [Ref 2],
      Dict [(ascii ''name'', Str (ascii ''Web'')), (ascii ''connections'', Ref 3)],
      PyList [Ref 4],
      Dict [(ascii ''target'', Str (ascii ''DB''))],
      Dict [(ascii ''stride_analysis'', Ref 6)],
      PyList [Ref 7],
      Dict [(ascii ''component_name'', Str (ascii ''Web'')), (ascii ''threats'', Ref 8)],
      PyList [Ref 9],
      Dict [(ascii ''category'', Str (ascii ''Spoofing''))]]"

definition sample_heap_document :: architecture_document where
  "sample_heap_document =
     \<lparr>components =
        Some [\<lparr>name = Some (ascii ''Web''), type = None, provider = None, description = None,
               connections = Some [\<lparr>target = Some (ascii ''DB''), data_flow = None\<rparr>]\<rparr>],
      architecture_summary = Some (ascii ''two'')\<rparr>"

definition sample_heap_report :: threat_report where
  "sample_heap_report =
     \<lparr>stride_analysis =
        Some [\<lparr>component_name = Some (ascii ''Web''), component_type = None,
                threats = Some [threat_of (Some (ascii ''Spoofing'')) None]\<rparr>],
      executive_summary = None, overall_risk_level = None\<rparr>"

definition toy_loads_h :: "pystr \<Rightarrow> heap \<Rightarrow> (pyval \<times> heap) option" where
  "toy_loads_h s h = (if s = [123, 125] then Some (Ref (length h), h @ [Dict []]) else None)"

text \<open>A model that gives the same reply to every request.\<close>

definition reply_of :: "pystr \<Rightarrow> chat_model" where
  "reply_of reply messages = reply"

text \<open>
  A document and a report with most keys missing: a component without any key, a
  component with a name and one connection without keys, an entry with one threat
  without keys, and an entry without keys.
\<close>

definition sparse_document :: architecture_document where
  "sparse_document =
     \<lparr>components =
        Some [bare_component,
              bare_component\<lparr>name := Some (ascii ''A''),
                connections := Some [\<lparr>target = None, data_flow = None\<rparr>]\<rparr>],
      architecture_summary = None\<rparr>"

definition sparse_report :: threat_report where
  "sparse_report =
     \<lparr>stride_analysis =
        Some [\<lparr>component_name = None, component_type = None,
                threats = Some [threat_of None None]\<rparr>,
              \<lparr>component_name = None, component_type = None, threats = None\<rparr>],
      executive_summary = None, overall_risk_level = None\<rparr>"

section \<open>Stripping white space and fences\<close>

lemma rstrip_append_space:
  assumes "\<forall>c\<in>set ws. isspace c"
  shows "rstrip (s @ ws) = rstrip s"
proof -
  have "dropWhile isspace (rev ws @ rev s) = dropWhile isspace (rev s)"
    using assms by (intro dropWhile_append2) simp
  then show ?thesis by (simp add: rstrip_def)
qed

lemma strip_append_space: "\<forall>c\<in>set ws. isspace c \<Longrightarrow> strip (s @ ws) = strip s"
  by (simp add: strip_def rstrip_append_space)

lemma rstrip_nonspace_last: "\<not> isspace c \<Longrightarrow> rstrip (s @ [c]) = s @ [c]"
  by (simp add: rstrip_def)

lemma strip_fenced:
  assumes "\<forall>c\<in>set ws1. isspace c" "\<forall>c\<in>set ws2. isspace c"
  shows "strip (ws1 @ backticks @ s @ backticks @ ws2) = backticks @ s @ backticks"
proof -
  have ns: "\<not> isspace 96" by (simp add: isspace_def)
  have "rstrip ((ws1 @ backticks @ s @ backticks) @ ws2) = rstrip (ws1 @ backticks @ s @ backticks)"
    using assms(2) by (rule rstrip_append_space)
  also have "\<dots> = ws1 @ backticks @ s @ backticks"
    using rstrip_nonspace_last[OF ns, of "ws1 @ backticks @ s @ [96, 96]"]
    by (simp add: backticks_def)
  finally have "rstrip (ws1 @ backticks @ s @ backticks @ ws2) = ws1 @ backticks @ s @ backticks"
    by simp
  then show ?thesis using assms(1) ns by (simp add: strip_def backticks_def)
qed

lemma split_first_line:
  assumes "10 \<notin> set info"
  shows "index (split_once (backticks @ info @ [10] @ rest) 10) 1 = Inr rest"
proof -
  have a: "\<And>x. x \<in> set (backticks @ info) \<Longrightarrow> x \<noteq> 10"
    using assms by (auto simp: backticks_def)
  have "takeWhile (\<lambda>x. x \<noteq> 10) ((backticks @ info) @ 10 # rest)
          = (backticks @ info) @ takeWhile (\<lambda>x. x \<noteq> 10) (10 # rest)"
    by (rule takeWhile_append2) (rule a)
  moreover have "dropWhile (\<lambda>x. x \<noteq> 10) ((backticks @ info) @ 10 # rest)
          = dropWhile (\<lambda>x. x \<noteq> 10) (10 # rest)"
    by (rule dropWhile_append2) (rule a)
  ultimately show ?thesis by (simp add: split_once_def index_def)
qed

lemma strip_fences_fenced:
  assumes "10 \<notin> set info" "\<forall>c\<in>set ws. isspace c"
  shows "strip_fences (backticks @ info @ [10] @ payload @ ws @ backticks) = Inr (strip payload)"
proof -
  have sw: "startswith (backticks @ info @ [10] @ payload @ ws @ backticks) backticks"
    by (simp add: startswith_def backticks_def)
  have ew: "endswith (payload @ ws @ backticks) backticks"
    by (simp add: endswith_def backticks_def)
  have tk: "take (length (payload @ ws @ backticks) - 3) (payload @ ws @ backticks) = payload @ ws"
    by (simp add: backticks_def)
  have ix: "index (split_once (backticks @ info @ [10] @ payload @ ws @ backticks) 10) 1
            = Inr (payload @ ws @ backticks)"
    using split_first_line[OF assms(1), of "payload @ ws @ backticks"] by simp
  show ?thesis
    unfolding strip_fences_def using sw ew tk ix strip_append_space[OF assms(2), of payload]
    by (simp add: Let_def)
qed

lemma cleaned_fenced:
  assumes "10 \<notin> set info" "\<forall>c\<in>set ws1. isspace c" "\<forall>c\<in>set ws. isspace c"
    "\<forall>c\<in>set ws2. isspace c"
  shows "strip_fences (strip (ws1 @ backticks @ info @ [10] @ payload @ ws @ backticks @ ws2))
           = Inr (strip payload)"
proof -
  have "strip (ws1 @ backticks @ (info @ [10] @ payload @ ws) @ backticks @ ws2)
          = backticks @ (info @ [10] @ payload @ ws) @ backticks"
    using assms(2,4) by (rule strip_fenced)
  then show ?thesis using strip_fences_fenced[OF assms(1,3), of payload] by simp
qed

lemma cleaned_plain:
  assumes "\<not> startswith (strip payload) backticks"
  shows "strip_fences (strip payload) = Inr (strip payload)"
  using assms by (simp add: strip_fences_def)

section \<open>The repair of a reply that is not JSON\<close>

lemma str_find_first:
  assumes "c \<notin> set pre"
  shows "str_find (pre @ [c] @ rest) c = int (length pre)"
proof -
  have "takeWhile (\<lambda>x. x \<noteq> c) (pre @ c # rest) = pre @ takeWhile (\<lambda>x. x \<noteq> c) (c # rest)"
    by (rule takeWhile_append2) (use assms in auto)
  then show ?thesis by (simp add: str_find_def)
qed

lemma str_rfind_last:
  assumes "c \<notin> set post"
  shows "str_rfind (front @ [c] @ post) c = int (length front)"
proof -
  have "takeWhile (\<lambda>x. x \<noteq> c) (rev post @ c # rev front)
          = rev post @ takeWhile (\<lambda>x. x \<noteq> c) (c # rev front)"
    by (rule takeWhile_append2) (use assms in auto)
  then show ?thesis by (simp add: str_rfind_def)
qed

lemma loads_or_repair_embedded:
  assumes "loads raw = None"
    and "raw = pre @ [123] @ mid @ [125] @ post"
    and "123 \<notin> set pre" and "125 \<notin> set post"
    and "loads ([123] @ mid @ [125]) = Some v"
  shows "loads_or_repair loads msg raw = Inr v"
proof -
  have s: "str_find raw 123 = int (length pre)"
    using str_find_first[OF assms(3), of "mid @ [125] @ post"] assms(2) by simp
  have e: "str_rfind raw 125 = int (length pre) + 1 + int (length mid)"
    using str_rfind_last[OF assms(4), of "pre @ [123] @ mid"] assms(2) by simp
  have "str_slice raw (int (length pre)) (int (length pre) + 1 + int (length mid) + 1)
          = [123] @ mid @ [125]"
    by (simp add: str_slice_def assms(2) nat_add_distrib)
  then show ?thesis
    using assms(1,5) s e by (simp add: loads_or_repair_def Let_def)
qed

lemma loads_or_repair_no_brace:
  assumes "loads raw = None" and "123 \<notin> set raw \<or> 125 \<notin> set raw"
  shows "loads_or_repair loads msg raw = Inl (ValueError (msg @ raw))"
proof (cases "123 \<in> set raw")
  case False
  then show ?thesis using assms(1) by (simp add: loads_or_repair_def str_find_def Let_def)
next
  case True
  then have "125 \<notin> set raw" using assms(2) by simp
  then show ?thesis
    using assms(1) True by (simp add: loads_or_repair_def str_find_def str_rfind_def Let_def)
qed

lemmas text_eval = ascii_def strip_def rstrip_def isspace_def startswith_def endswith_def
  backticks_def strip_fences_def split_once_def index_def toy_loads_def

text \<open>
  C3. Let \<open>raw\<close> be the reply of the model as the parse step receives it (stripped, and
  without its fences), and let \<open>json.loads\<close> reject it. If \<open>raw\<close> is some text without
  \<open>{\<close>, then \<open>{\<close>, a middle, \<open>}\<close>, and some text without \<open>}\<close>, and \<open>json.loads\<close> accepts
  the part from that first \<open>{\<close> to that last \<open>}\<close>, then \<open>extract_components\<close> and
  \<open>analyze_stride\<close> return what it gives for that part. If \<open>raw\<close> has no \<open>{\<close> or no \<open>}\<close>,
  both raise the ValueError that carries \<open>raw\<close>.
\<close>

theorem repair_path:
  fixes loads :: "pystr \<Rightarrow> 'j option"
  assumes "loads raw = None"
  shows
    "(strip_fences (strip (llm [extraction_message image_b64 mime_type])) = Inr raw \<longrightarrow>
        (raw = pre @ [123] @ mid @ [125] @ post \<and> 123 \<notin> set pre \<and> 125 \<notin> set post \<and>
         loads ([123] @ mid @ [125]) = Some v \<longrightarrow>
           extract_components loads llm image_b64 mime_type = Inr v) \<and>
        (123 \<notin> set raw \<or> 125 \<notin> set raw \<longrightarrow>
           extract_components loads llm image_b64 mime_type =
             Inl (ValueError (ascii ''Could not parse LLM response as JSON:'' @ [10] @ raw)))) \<and>
     (strip_fences (strip (llm' [stride_message dumps components_data])) = Inr raw \<longrightarrow>
        (raw = pre @ [123] @ mid @ [125] @ post \<and> 123 \<notin> set pre \<and> 125 \<notin> set post \<and>
         loads ([123] @ mid @ [125]) = Some v \<longrightarrow>
           analyze_stride loads dumps llm' components_data = Inr v) \<and>
        (123 \<notin> set raw \<or> 125 \<notin> set raw \<longrightarrow>
           analyze_stride loads dumps llm' components_data =
             Inl (ValueError (ascii ''Could not parse STRIDE response as JSON:'' @ [10] @ raw))))"
  using assms
  by (auto simp: extract_components_def analyze_stride_def Let_def
        loads_or_repair_no_brace
        intro: loads_or_repair_embedded[where pre=pre and mid=mid and post=post])

theorem repair_path_witness:
  "extract_components toy_loads (\<lambda>_. ascii ''Here: {} done'') [] [] = Inr 0 \<and>
   analyze_stride toy_loads (\<lambda>_. []) (\<lambda>_. ascii ''Here: {} done'')
     \<lparr>components = None, architecture_summary = None\<rparr> = Inr 0 \<and>
   extract_components toy_loads (\<lambda>_. ascii ''no json'') [] [] =
     Inl (ValueError (ascii ''Could not parse LLM response as JSON:'' @ [10] @ ascii ''no json'')) \<and>
   analyze_stride toy_loads (\<lambda>_. []) (\<lambda>_. ascii ''no json'')
     \<lparr>components = None, architecture_summary = None\<rparr> =
     Inl (ValueError (ascii ''Could not parse STRIDE response as JSON:'' @ [10] @ ascii ''no json''))"
  using
    repair_path[of toy_loads "ascii ''Here: {} done''" "\<lambda>_. ascii ''Here: {} done''" "[]" "[]"
      "ascii ''Here: ''" "[]" "ascii '' done''" 0 "\<lambda>_. ascii ''Here: {} done''" "\<lambda>_. []"
      "\<lparr>components = None, architecture_summary = None\<rparr>"]
    repair_path[of toy_loads "ascii ''no json''" "\<lambda>_. ascii ''no json''" "[]" "[]"
      "[]" "[]" "[]" 0 "\<lambda>_. ascii ''no json''" "\<lambda>_. []"
      "\<lparr>components = None, architecture_summary = None\<rparr>"]
  by (simp add: text_eval)

text \<open>
  C4 fails as it is stated when the payload itself starts with three backticks. With the
  payload of three backticks and \<open>x\<close>, the fenced reply ends in the ValueError of the
  parse step, and the payload alone ends in the IndexError of line 123.
\<close>

theorem nested_fence_counterexample:
  "extract_components toy_loads
     (reply_of (backticks @ ascii ''json'' @ [10] @ backticks @ ascii ''x'' @ [10] @ backticks))
     (ascii ''TWFu'') (ascii ''image/png'') =
     Inl (ValueError (ascii ''Could not parse LLM response as JSON:'' @ [10] @
                      backticks @ ascii ''x'')) \<and>
   extract_components toy_loads (reply_of (backticks @ ascii ''x''))
     (ascii ''TWFu'') (ascii ''image/png'') = Inl IndexError"
  by (simp add: extract_components_def loads_or_repair_def reply_of_def str_find_def
        text_eval Let_def)

text \<open>
  C4, amended. Take a reply made of an opening fence (three backticks and the rest of that
  line), a payload, and a closing fence of three backticks, with any white space around
  the reply and before the closing fence. The fence step yields the payload without the
  white space around it, and \<open>extract_components\<close> and \<open>analyze_stride\<close> return what the
  parse step gives on that text. When the payload, without the white space around it,
  does not itself start with three backticks, the fence step leaves the payload alone
  as that text too, and each function returns for the fenced reply what it returns
  for the payload alone.
\<close>

theorem fenced_reply:
  fixes loads :: "pystr \<Rightarrow> 'j option"
  assumes "10 \<notin> set info"
    and "\<forall>c\<in>set ws1. isspace c" and "\<forall>c\<in>set ws. isspace c" and "\<forall>c\<in>set ws2. isspace c"
    and "fenced = ws1 @ backticks @ info @ [10] @ payload @ ws @ backticks @ ws2"
  shows
    "strip_fences (strip fenced) = Inr (strip payload) \<and>
     (llm [extraction_message image_b64 mime_type] = fenced \<longrightarrow>
        extract_components loads llm image_b64 mime_type =
          loads_or_repair loads (ascii ''Could not parse LLM response as JSON:'' @ [10])
            (strip payload)) \<and>
     (llm [stride_message dumps components_data] = fenced \<longrightarrow>
        analyze_stride loads dumps llm components_data =
          loads_or_repair loads (ascii ''Could not parse STRIDE response as JSON:'' @ [10])
            (strip payload)) \<and>
     (\<not> startswith (strip payload) backticks \<longrightarrow>
        strip_fences (strip payload) = Inr (strip payload) \<and>
        (llm [extraction_message image_b64 mime_type] = fenced \<and>
         llm0 [extraction_message image_b64 mime_type] = payload \<longrightarrow>
           extract_components loads llm image_b64 mime_type =
           extract_components loads llm0 image_b64 mime_type) \<and>
        (llm [stride_message dumps components_data] = fenced \<and>
         llm0 [stride_message dumps components_data] = payload \<longrightarrow>
           analyze_stride loads dumps llm components_data =
           analyze_stride loads dumps llm0 components_data))"
proof -
  have f: "strip_fences (strip fenced) = Inr (strip payload)"
    unfolding assms(5) using assms(1-4) by (rule cleaned_fenced)
  have p: "\<not> startswith (strip payload) backticks \<Longrightarrow>
      strip_fences (strip payload) = Inr (strip payload)"
    by (rule cleaned_plain)
  show ?thesis
    using f p by (auto simp: extract_components_def analyze_stride_def Let_def)
qed

theorem fenced_reply_witness:
  "strip_fences (strip (backticks @ ascii ''json'' @ [10] @ ascii '' {} '' @ [10] @ backticks @ [10]))
     = Inr (ascii ''{}'') \<and>
   extract_components toy_loads
     (reply_of (backticks @ ascii ''json'' @ [10] @ ascii '' {} '' @ [10] @ backticks @ [10]))
     (ascii ''TWFu'') (ascii ''image/png'') = Inr 0 \<and>
   extract_components toy_loads (reply_of (ascii '' {} ''))
     (ascii ''TWFu'') (ascii ''image/png'') = Inr 0 \<and>
   analyze_stride toy_loads (\<lambda>_. [])
     (reply_of (backticks @ ascii ''json'' @ [10] @ ascii '' {} '' @ [10] @ backticks @ [10]))
     empty_document = Inr 0 \<and>
   analyze_stride toy_loads (\<lambda>_. []) (reply_of (ascii '' {} '')) empty_document = Inr 0"
proof -
  note inst = fenced_reply[where info = "ascii ''json''" and ?ws1.0 = "[]" and ws = "[10]"
      and ?ws2.0 = "[10]" and payload = "ascii '' {} ''"
      and fenced = "backticks @ ascii ''json'' @ [10] @ ascii '' {} '' @ [10] @ backticks @ [10]"
      and llm = "reply_of (backticks @ ascii ''json'' @ [10] @ ascii '' {} '' @ [10] @ backticks @ [10])"
      and ?llm0.0 = "reply_of (ascii '' {} '')"
      and ?image_b64.0 = "ascii ''TWFu''" and mime_type = "ascii ''image/png''"
      and loads = toy_loads and dumps = "\<lambda>_. []" and components_data = empty_document]
  have s: "strip (ascii '' {} '') = ascii ''{}''"
    by (simp add: text_eval)
  have l: "loads_or_repair toy_loads m (ascii ''{}'') = Inr 0" for m
    by (simp add: loads_or_repair_def toy_loads_def ascii_def)
  show ?thesis
    using inst unfolding s l
    by (simp add: reply_of_def isspace_def) (auto simp: text_eval)
qed

section \<open>The image loader\<close>

lemmas path_eval = ascii_def str_rfind_def path_name_def suffix_def lower_def b64_alphabet_def
  b64_digit_def

text \<open>
  C5 fails as it is stated: a directory is a path that exists, and for it
  \<open>load_image_as_base64\<close> returns nothing, since \<open>open\<close> raises IsADirectoryError.
\<close>

theorem existing_path_counterexample:
  "exists sample_files (ascii ''img'') \<and>
   load_image_as_base64 sample_files (ascii ''img'') = Inl (IsADirectoryError (ascii ''img''))"
  by (simp add: load_image_as_base64_def exists_def open_rb_read_def sample_files_def ascii_def
        Let_def)

text \<open>
  C5, amended. A path that does not exist makes \<open>load_image_as_base64\<close> raise
  FileNotFoundError. For the path of a regular file that can be read it returns the base64
  text of the file's bytes and the MIME type of the lower-cased suffix of the path:
  \<open>image/png\<close> for \<open>.png\<close>, \<open>image/jpeg\<close> for \<open>.jpg\<close> and \<open>.jpeg\<close>, \<open>image/gif\<close> for
  \<open>.gif\<close>, \<open>image/webp\<close> for \<open>.webp\<close>, \<open>image/bmp\<close> for \<open>.bmp\<close>, and \<open>image/png\<close> for
  any other suffix. For a path that exists and cannot be opened for reading, a directory
  or a file without permission, the error of \<open>open\<close> leaves the function.
\<close>

theorem load_image_contract:
  "(fs image_path = None \<longrightarrow>
      load_image_as_base64 fs image_path =
        Inl (FileNotFoundError (ascii ''Image not found: '' @ image_path))) \<and>
   (fs image_path = Some (RegularFile bytes) \<longrightarrow>
      load_image_as_base64 fs image_path =
        Inr (standard_b64encode bytes,
             (let ext = lower (suffix image_path)
              in if ext = ascii ''.png'' then ascii ''image/png''
                 else if ext = ascii ''.jpg'' then ascii ''image/jpeg''
                 else if ext = ascii ''.jpeg'' then ascii ''image/jpeg''
                 else if ext = ascii ''.gif'' then ascii ''image/gif''
                 else if ext = ascii ''.webp'' then ascii ''image/webp''
                 else if ext = ascii ''.bmp'' then ascii ''image/bmp''
                 else ascii ''image/png''))) \<and>
   (fs image_path = Some Directory \<longrightarrow>
      load_image_as_base64 fs image_path = Inl (IsADirectoryError image_path)) \<and>
   (fs image_path = Some Unreadable \<longrightarrow>
      load_image_as_base64 fs image_path = Inl (PermissionError image_path))"
  by (simp add: load_image_as_base64_def exists_def open_rb_read_def mime_map_def get_def Let_def)

theorem load_image_contract_witness:
  "load_image_as_base64 sample_files (ascii ''img/Diagram.v2.JPG'') =
     Inr (ascii ''TWFuIQ=='', ascii ''image/jpeg'') \<and>
   load_image_as_base64 sample_files (ascii ''missing.png'') =
     Inl (FileNotFoundError (ascii ''Image not found: missing.png'')) \<and>
   load_image_as_base64 sample_files (ascii ''img/locked.png'') =
     Inl (PermissionError (ascii ''img/locked.png''))"
  using load_image_contract[of sample_files "ascii ''img/Diagram.v2.JPG''" "[77, 97, 110, 33]"]
    load_image_contract[of sample_files "ascii ''missing.png''" "[]"]
    load_image_contract[of sample_files "ascii ''img/locked.png''" "[]"]
  by (simp add: sample_files_def path_eval)

section \<open>The counters of the risk matrix\<close>


lemma fold_fold:
  "fold (\<lambda>entry. fold f (g entry)) entries acc = fold f (concat (map g entries)) acc"
  by (induction entries arbitrary: acc) simp_all

lemma empty_zero: "get (Map.empty k) (0::nat) = 0"
  by (simp add: get_def)

lemma count_threats_flat:
  "count_threats entries =
     fold count_threat (concat (map (\<lambda>entry. get (threats entry) []) entries))
       (initial_severity_counts, Map.empty)"
  unfolding count_threats_def by (rule fold_fold)

lemma fold_count_threat_severity:
  "get (fst (fold count_threat ts (sc, cc)) k) 0 =
     get (sc k) 0 + length (filter (\<lambda>t. get (severity t) (ascii ''Baixa'') = k) ts)"
  by (induction ts arbitrary: sc cc)
     (auto simp: count_threat_def increment_def get_def Let_def)

lemma fold_count_threat_category:
  "get (snd (fold count_threat ts (sc, cc)) k) 0 =
     get (cc k) 0 + length (filter (\<lambda>t. get (category t) (ascii ''Outro'') = k) ts)"
  by (induction ts arbitrary: sc cc)
     (auto simp: count_threat_def increment_def get_def Let_def)

lemma initial_zero: "get (initial_severity_counts k) 0 = 0"
  by (simp add: initial_severity_counts_def get_def)

lemma severity_count_shown:
  "get (fst (count_threats (get (stride_analysis sd) [])) k) 0 =
     length (filter (\<lambda>t. get (severity t) (ascii ''Baixa'') = k) (all_threats sd))"
  by (simp add: count_threats_flat fold_count_threat_severity initial_zero all_threats_def)

lemma category_count_shown:
  "get (snd (count_threats (get (stride_analysis sd) [])) k) 0 =
     length (filter (\<lambda>t. get (category t) (ascii ''Outro'') = k) (all_threats sd))"
  by (simp add: count_threats_flat fold_count_threat_category all_threats_def empty_zero)

lemma get_eq_label:
  "label \<noteq> dflt \<Longrightarrow> (get field dflt = label) = (field = Some label)"
  by (cases field) (auto simp: get_def)

lemma english_count:
  "k \<noteq> ascii ''Baixa'' \<Longrightarrow>
   get (fst (count_threats (get (stride_analysis sd) [])) k) 0 = count_with severity k (all_threats sd)"
  by (simp add: severity_count_shown count_with_def get_eq_label)

lemma category_count:
  "k \<noteq> ascii ''Outro'' \<Longrightarrow>
   get (snd (count_threats (get (stride_analysis sd) [])) k) 0 = count_with category k (all_threats sd)"
  by (simp add: category_count_shown count_with_def get_eq_label)


lemma report_lines_tail:
  assumes "report_lines now cd sd ip = Inr ls"
  shows "\<exists>before. ls = before @ severity_lines (fst (count_threats (get (stride_analysis sd) [])))
           @ category_lines (snd (count_threats (get (stride_analysis sd) []))) @ footer_lines"
proof -
  obtain flow where "data_flow_lines (get (components cd) []) = Inr flow"
    using assms by (auto simp: report_lines_def Let_def split: sum.splits)
  then have "ls = (header_lines now ip (get (overall_risk_level sd) na)
        @ summary_lines (get (executive_summary sd) na) (get (architecture_summary cd) na)
        @ component_lines (get (components cd) []) @ flow
        @ stride_lines (get (stride_analysis sd) []) @ matrix_lines)
      @ severity_lines (fst (count_threats (get (stride_analysis sd) [])))
      @ category_lines (snd (count_threats (get (stride_analysis sd) []))) @ footer_lines"
    using assms by (simp add: report_lines_def Let_def split_beta)
  then show ?thesis by blast
qed

lemma generate_report_tail:
  assumes "fst (generate_report now files cd sd ip op) = Inr report"
  shows "\<exists>before. report = join [10] (before
           @ severity_lines (fst (count_threats (get (stride_analysis sd) [])))
           @ category_lines (snd (count_threats (get (stride_analysis sd) []))) @ footer_lines)"
proof -
  obtain ls where ls: "report_lines now cd sd ip = Inr ls" and r: "report = join [10] ls"
    using assms by (auto simp: generate_report_def Let_def split: sum.splits)
  from report_lines_tail[OF ls] r show ?thesis by blast
qed

lemma emoji_lookup:
  "map_of SEVERITY_EMOJI (ascii ''Critical'') = Some [128308]"
  "map_of SEVERITY_EMOJI (ascii ''High'') = Some [128992]"
  "map_of SEVERITY_EMOJI (ascii ''Medium'') = Some [128993]"
  "map_of SEVERITY_EMOJI (ascii ''Low'') = Some [128994]"
  "map_of SEVERITY_EMOJI (ascii ''Cr'' @ 237 # ascii ''tica'') = None"
  "map_of SEVERITY_EMOJI (ascii ''Alta'') = None"
  "map_of SEVERITY_EMOJI (ascii ''M'' @ 233 # ascii ''dia'') = None"
  "map_of SEVERITY_EMOJI (ascii ''Baixa'') = None"
  by (simp_all add: SEVERITY_EMOJI_def ascii_def)

lemma severity_row_none: "map_of SEVERITY_EMOJI sev = None \<Longrightarrow> severity_row sc sev = []"
  by (simp add: severity_row_def get_def)

lemma severity_row_some:
  "map_of SEVERITY_EMOJI sev = Some e \<Longrightarrow> e \<noteq> white_circle \<Longrightarrow>
   severity_row sc sev =
     [ascii ''| '' @ e @ ascii '' '' @ sev @ ascii '' | '' @ str_nat (get (sc sev) 0) @ ascii '' |'']"
  by (simp add: severity_row_def get_def)

lemma severity_row_label:
  "severity_row sc (ascii ''Critical'') =
     [ascii ''| '' @ [128308] @ ascii '' Critical | '' @ str_nat (get (sc (ascii ''Critical'')) 0) @ ascii '' |'']"
  "severity_row sc (ascii ''High'') =
     [ascii ''| '' @ [128992] @ ascii '' High | '' @ str_nat (get (sc (ascii ''High'')) 0) @ ascii '' |'']"
  "severity_row sc (ascii ''Medium'') =
     [ascii ''| '' @ [128993] @ ascii '' Medium | '' @ str_nat (get (sc (ascii ''Medium'')) 0) @ ascii '' |'']"
  "severity_row sc (ascii ''Low'') =
     [ascii ''| '' @ [128994] @ ascii '' Low | '' @ str_nat (get (sc (ascii ''Low'')) 0) @ ascii '' |'']"
  "severity_row sc (ascii ''Cr'' @ 237 # ascii ''tica'') = []"
  "severity_row sc (ascii ''Alta'') = []"
  "severity_row sc (ascii ''M'' @ 233 # ascii ''dia'') = []"
  "severity_row sc (ascii ''Baixa'') = []"
  by (simp_all add: severity_row_def SEVERITY_EMOJI_def white_circle_def ascii_def get_def)

lemma severity_lines_rows:
  "severity_lines sc =
     [ascii ''### Por Severidade'', [],
      ascii ''| Severidade | Quantidade |'',
      ascii ''|----------|-------|'',
      ascii ''| '' @ [128308] @ ascii '' Critical | '' @ str_nat (get (sc (ascii ''Critical'')) 0) @ ascii '' |'',
      ascii ''| '' @ [128992] @ ascii '' High | '' @ str_nat (get (sc (ascii ''High'')) 0) @ ascii '' |'',
      ascii ''| '' @ [128993] @ ascii '' Medium | '' @ str_nat (get (sc (ascii ''Medium'')) 0) @ ascii '' |'',
      ascii ''| '' @ [128994] @ ascii '' Low | '' @ str_nat (get (sc (ascii ''Low'')) 0) @ ascii '' |'',
      []]"
  by (simp add: severity_lines_def severity_labels_def severity_row_label)

lemma category_lines_rows:
  "category_lines cc =
     [ascii ''### Por Categoria STRIDE'', [],
      ascii ''| Categoria | Quantidade |'',
      ascii ''|----------|-------|'']
     @ map (\<lambda>cat. ascii ''| '' @ cat @ ascii '' | '' @ str_nat (get (cc cat) 0) @ ascii '' |'')
         [ascii ''Spoofing'', ascii ''Tampering'', ascii ''Repudiation'',
          ascii ''Information Disclosure'', ascii ''Denial of Service'',
          ascii ''Elevation of Privilege'']
     @ [[]]"
  by (simp add: category_lines_def stride_categories_def category_row_def)


lemma count_with_map:
  "count_with field label ts = length (filter (\<lambda>x. x = Some label) (map field ts))"
  by (simp add: count_with_def filter_map comp_def)

lemma generate_report_returns:
  assumes "data_flow_loop (get (components cd) []) = Inr flow"
  shows "\<exists>report. generate_report now files cd sd ip op = (Inr report, files(op \<mapsto> report))"
  using assms
  by (simp add: generate_report_def report_lines_def data_flow_lines_def Let_def split_beta)

lemma str_nat_digit:
  "str_nat 0 = ascii ''0''" "str_nat 1 = ascii ''1''" "str_nat (Suc 0) = ascii ''1''"
  "str_nat 2 = ascii ''2''"
  by (simp_all add: str_nat.simps ascii_def)

text \<open>
  C1. In every report that \<open>generate_report\<close> returns, the last lines are the severity
  table, the category table and the footer. When the severities of the threats are
  Critical, Critical and Low, the rows of the severity table read Critical 2, High 0,
  Medium 0 and Low 1. The row of each of the six categories shows the number of threats
  whose category is that very label, so a threat with any other category string is
  counted in none of the six rows.
\<close>

theorem severity_and_category_tables:
  assumes "fst (generate_report now files components_data stride_data image_path output_path) = Inr report"
  shows
    "\<exists>before severity_rows.
       report = join [10]
         (before
          @ [ascii ''### Por Severidade'', [],
             ascii ''| Severidade | Quantidade |'',
             ascii ''|----------|-------|'']
          @ severity_rows
          @ [[]]
          @ [ascii ''### Por Categoria STRIDE'', [],
             ascii ''| Categoria | Quantidade |'',
             ascii ''|----------|-------|'']
          @ map (\<lambda>cat. ascii ''| '' @ cat @ ascii '' | '' @
                        str_nat (count_with category cat (all_threats stride_data)) @ ascii '' |'')
              [ascii ''Spoofing'', ascii ''Tampering'', ascii ''Repudiation'',
               ascii ''Information Disclosure'', ascii ''Denial of Service'',
               ascii ''Elevation of Privilege'']
          @ [[]]
          @ footer_lines) \<and>
       (map severity (all_threats stride_data) =
          [Some (ascii ''Critical''), Some (ascii ''Critical''), Some (ascii ''Low'')] \<longrightarrow>
        severity_rows =
          [ascii ''| '' @ [128308] @ ascii '' Critical | 2 |'',
           ascii ''| '' @ [128992] @ ascii '' High | 0 |'',
           ascii ''| '' @ [128993] @ ascii '' Medium | 0 |'',
           ascii ''| '' @ [128994] @ ascii '' Low | 1 |''])"
proof -
  let ?sc = "fst (count_threats (get (stride_analysis stride_data) []))"
  let ?cc = "snd (count_threats (get (stride_analysis stride_data) []))"
  let ?ts = "all_threats stride_data"
  let ?rows =
    "[ascii ''| '' @ [128308] @ ascii '' Critical | '' @ str_nat (get (?sc (ascii ''Critical'')) 0) @ ascii '' |'',
      ascii ''| '' @ [128992] @ ascii '' High | '' @ str_nat (get (?sc (ascii ''High'')) 0) @ ascii '' |'',
      ascii ''| '' @ [128993] @ ascii '' Medium | '' @ str_nat (get (?sc (ascii ''Medium'')) 0) @ ascii '' |'',
      ascii ''| '' @ [128994] @ ascii '' Low | '' @ str_nat (get (?sc (ascii ''Low'')) 0) @ ascii '' |'']"
  obtain before where r: "report = join [10] (before @ severity_lines ?sc @ category_lines ?cc @ footer_lines)"
    using generate_report_tail[OF assms] by blast
  have cat: "\<And>k. k \<noteq> ascii ''Outro'' \<Longrightarrow> get (?cc k) 0 = count_with category k ?ts"
    by (rule category_count)
  have cats: "category_lines ?cc =
     [ascii ''### Por Categoria STRIDE'', [],
      ascii ''| Categoria | Quantidade |'',
      ascii ''|----------|-------|'']
     @ map (\<lambda>cat. ascii ''| '' @ cat @ ascii '' | '' @
                   str_nat (count_with category cat ?ts) @ ascii '' |'')
         [ascii ''Spoofing'', ascii ''Tampering'', ascii ''Repudiation'',
          ascii ''Information Disclosure'', ascii ''Denial of Service'',
          ascii ''Elevation of Privilege'']
     @ [[]]"
    unfolding category_lines_rows by (simp add: cat ascii_def)
  have sevs: "severity_lines ?sc =
      [ascii ''### Por Severidade'', [], ascii ''| Severidade | Quantidade |'',
       ascii ''|----------|-------|''] @ ?rows @ [[]]"
    unfolding severity_lines_rows by simp
  have eng: "\<And>k. k \<noteq> ascii ''Baixa'' \<Longrightarrow> get (?sc k) 0 = count_with severity k ?ts"
    by (rule english_count)
  have ccl: "map severity ?ts = [Some (ascii ''Critical''), Some (ascii ''Critical''), Some (ascii ''Low'')]
      \<Longrightarrow> ?rows =
          [ascii ''| '' @ [128308] @ ascii '' Critical | 2 |'',
           ascii ''| '' @ [128992] @ ascii '' High | 0 |'',
           ascii ''| '' @ [128993] @ ascii '' Medium | 0 |'',
           ascii ''| '' @ [128994] @ ascii '' Low | 1 |'']"
  proof -
    assume h: "map severity ?ts = [Some (ascii ''Critical''), Some (ascii ''Critical''), Some (ascii ''Low'')]"
    have ne: "ascii ''Critical'' \<noteq> ascii ''Baixa''" "ascii ''High'' \<noteq> ascii ''Baixa''"
      "ascii ''Medium'' \<noteq> ascii ''Baixa''" "ascii ''Low'' \<noteq> ascii ''Baixa''"
      by (simp_all add: ascii_def)
    have "get (?sc (ascii ''Critical'')) 0 = 2" "get (?sc (ascii ''High'')) 0 = 0"
      "get (?sc (ascii ''Medium'')) 0 = 0" "get (?sc (ascii ''Low'')) 0 = 1"
      unfolding eng[OF ne(1)] eng[OF ne(2)] eng[OF ne(3)] eng[OF ne(4)] count_with_map h
      by (simp_all add: ascii_def)
    then show ?thesis by (simp add: str_nat_digit) (simp add: ascii_def)
  qed
  from r cats sevs ccl show ?thesis
    by (intro exI[of _ before] exI[of _ ?rows]) simp
qed


lemma sample_all_threats:
  "all_threats (report_of tss) = concat tss"
  by (simp add: all_threats_def report_of_def get_def comp_def)

lemma sample_report_returns:
  "\<exists>report. generate_report now files empty_document sd ip op = (Inr report, files(op \<mapsto> report))"
  by (rule generate_report_returns[of empty_document "[]"]) (simp add: empty_document_def get_def)

theorem severity_and_category_tables_witness:
  "\<exists>report before.
     fst (generate_report [] Map.empty empty_document sample_report [] []) = Inr report \<and>
     report = join [10]
       (before
        @ [ascii ''### Por Severidade'', [],
           ascii ''| Severidade | Quantidade |'',
           ascii ''|----------|-------|'',
           ascii ''| '' @ [128308] @ ascii '' Critical | 2 |'',
           ascii ''| '' @ [128992] @ ascii '' High | 0 |'',
           ascii ''| '' @ [128993] @ ascii '' Medium | 0 |'',
           ascii ''| '' @ [128994] @ ascii '' Low | 1 |'',
           [],
           ascii ''### Por Categoria STRIDE'', [],
           ascii ''| Categoria | Quantidade |'',
           ascii ''|----------|-------|'',
           ascii ''| Spoofing | 1 |'',
           ascii ''| Tampering | 1 |'',
           ascii ''| Repudiation | 0 |'',
           ascii ''| Information Disclosure | 0 |'',
           ascii ''| Denial of Service | 0 |'',
           ascii ''| Elevation of Privilege | 0 |'',
           []]
        @ footer_lines)"
proof -
  obtain report where
    "generate_report [] Map.empty empty_document sample_report [] [] = (Inr report, [[] \<mapsto> report])"
    using sample_report_returns by blast
  then have h: "fst (generate_report [] Map.empty empty_document sample_report [] []) = Inr report"
    by simp
  have sev: "map severity (all_threats sample_report) =
      [Some (ascii ''Critical''), Some (ascii ''Critical''), Some (ascii ''Low'')]"
    by (simp add: sample_report_def sample_all_threats threat_of_def)
  have cats:
    "count_with category (ascii ''Spoofing'') (all_threats sample_report) = 1"
    "count_with category (ascii ''Tampering'') (all_threats sample_report) = 1"
    "count_with category (ascii ''Repudiation'') (all_threats sample_report) = 0"
    "count_with category (ascii ''Information Disclosure'') (all_threats sample_report) = 0"
    "count_with category (ascii ''Denial of Service'') (all_threats sample_report) = 0"
    "count_with category (ascii ''Elevation of Privilege'') (all_threats sample_report) = 0"
    by (simp_all add: count_with_def sample_report_def sample_all_threats threat_of_def ascii_def)
  from severity_and_category_tables[OF h] sev obtain before where
    "report = join [10]
         (before
          @ [ascii ''### Por Severidade'', [],
             ascii ''| Severidade | Quantidade |'',
             ascii ''|----------|-------|'']
          @ [ascii ''| '' @ [128308] @ ascii '' Critical | 2 |'',
           ascii ''| '' @ [128992] @ ascii '' High | 0 |'',
           ascii ''| '' @ [128993] @ ascii '' Medium | 0 |'',
           ascii ''| '' @ [128994] @ ascii '' Low | 1 |'']
          @ [[]]
          @ [ascii ''### Por Categoria STRIDE'', [],
             ascii ''| Categoria | Quantidade |'',
             ascii ''|----------|-------|'']
          @ map (\<lambda>cat. ascii ''| '' @ cat @ ascii '' | '' @
                        str_nat (count_with category cat (all_threats sample_report)) @ ascii '' |'')
              [ascii ''Spoofing'', ascii ''Tampering'', ascii ''Repudiation'',
               ascii ''Information Disclosure'', ascii ''Denial of Service'',
               ascii ''Elevation of Privilege'']
          @ [[]]
          @ footer_lines)"
    by blast
  then have "report = join [10]
       (before
        @ [ascii ''### Por Severidade'', [],
           ascii ''| Severidade | Quantidade |'',
           ascii ''|----------|-------|'',
           ascii ''| '' @ [128308] @ ascii '' Critical | 2 |'',
           ascii ''| '' @ [128992] @ ascii '' High | 0 |'',
           ascii ''| '' @ [128993] @ ascii '' Medium | 0 |'',
           ascii ''| '' @ [128994] @ ascii '' Low | 1 |'',
           [],
           ascii ''### Por Categoria STRIDE'', [],
           ascii ''| Categoria | Quantidade |'',
           ascii ''|----------|-------|'',
           ascii ''| Spoofing | 1 |'',
           ascii ''| Tampering | 1 |'',
           ascii ''| Repudiation | 0 |'',
           ascii ''| Information Disclosure | 0 |'',
           ascii ''| Denial of Service | 0 |'',
           ascii ''| Elevation of Privilege | 0 |'',
           []]
        @ footer_lines)"
    by (simp add: cats str_nat_digit) (simp add: ascii_def)
  with h show ?thesis by blast
qed

section \<open>The two vocabularies of severity\<close>


lemma english_not_baixa:
  "ascii ''Critical'' \<noteq> ascii ''Baixa''" "ascii ''High'' \<noteq> ascii ''Baixa''"
  "ascii ''Medium'' \<noteq> ascii ''Baixa''" "ascii ''Low'' \<noteq> ascii ''Baixa''"
  by (simp_all add: ascii_def)

lemma severity_lines_exact:
  "severity_lines (fst (count_threats (get (stride_analysis sd) []))) =
     [ascii ''### Por Severidade'', [],
      ascii ''| Severidade | Quantidade |'',
      ascii ''|----------|-------|'',
      ascii ''| '' @ [128308] @ ascii '' Critical | '' @
        str_nat (count_with severity (ascii ''Critical'') (all_threats sd)) @ ascii '' |'',
      ascii ''| '' @ [128992] @ ascii '' High | '' @
        str_nat (count_with severity (ascii ''High'') (all_threats sd)) @ ascii '' |'',
      ascii ''| '' @ [128993] @ ascii '' Medium | '' @
        str_nat (count_with severity (ascii ''Medium'') (all_threats sd)) @ ascii '' |'',
      ascii ''| '' @ [128994] @ ascii '' Low | '' @
        str_nat (count_with severity (ascii ''Low'') (all_threats sd)) @ ascii '' |'',
      []]"
  unfolding severity_lines_rows
    english_count[OF english_not_baixa(1)] english_count[OF english_not_baixa(2)]
    english_count[OF english_not_baixa(3)] english_count[OF english_not_baixa(4)]
  by (rule refl)

lemma severity_count_with_default:
  "get (fst (count_threats (get (stride_analysis sd) [])) k) 0 =
     count_with severity k (all_threats sd) +
     (if k = ascii ''Baixa'' then length (filter (\<lambda>t. severity t = None) (all_threats sd)) else 0)"
proof -
  have "length (filter (\<lambda>t. get (severity t) (ascii ''Baixa'') = k) ts) =
        count_with severity k ts +
        (if k = ascii ''Baixa'' then length (filter (\<lambda>t. severity t = None) ts) else 0)" for ts
    by (induction ts) (auto simp: count_with_def get_def split: option.splits)
  then show ?thesis by (simp add: severity_count_shown)
qed

lemma empty_document_lines:
  "report_lines now empty_document sd ip =
     Inr (header_lines now ip (get (overall_risk_level sd) na)
          @ summary_lines (get (executive_summary sd) na) na
          @ component_lines []
          @ [ascii ''## '' @ [128260] @ ascii '' Fluxo de Dados'', []]
          @ stride_lines (get (stride_analysis sd) [])
          @ matrix_lines
          @ severity_lines (fst (count_threats (get (stride_analysis sd) [])))
          @ category_lines (snd (count_threats (get (stride_analysis sd) [])))
          @ footer_lines)"
  by (simp add: report_lines_def data_flow_lines_def empty_document_def get_def Let_def split_beta)

text \<open>
  C2 fails as it is stated: a report whose only threat is labelled with the Portuguese
  word for critical shows Critical 0, and the same report with the English label shows
  Critical 1.
\<close>

theorem merged_vocabularies_counterexample:
  "report_lines [] empty_document portuguese_report [] =
     Inr (header_lines [] [] na @ summary_lines na na @ component_lines []
          @ [ascii ''## '' @ [128260] @ ascii '' Fluxo de Dados'', []]
          @ stride_lines (get (stride_analysis portuguese_report) [])
          @ matrix_lines
          @ [ascii ''### Por Severidade'', [],
             ascii ''| Severidade | Quantidade |'',
             ascii ''|----------|-------|'',
             ascii ''| '' @ [128308] @ ascii '' Critical | 0 |'',
             ascii ''| '' @ [128992] @ ascii '' High | 0 |'',
             ascii ''| '' @ [128993] @ ascii '' Medium | 0 |'',
             ascii ''| '' @ [128994] @ ascii '' Low | 0 |'',
             []]
          @ category_lines (snd (count_threats (get (stride_analysis portuguese_report) [])))
          @ footer_lines) \<and>
   report_lines [] empty_document english_report [] =
     Inr (header_lines [] [] na @ summary_lines na na @ component_lines []
          @ [ascii ''## '' @ [128260] @ ascii '' Fluxo de Dados'', []]
          @ stride_lines (get (stride_analysis english_report) [])
          @ matrix_lines
          @ [ascii ''### Por Severidade'', [],
             ascii ''| Severidade | Quantidade |'',
             ascii ''|----------|-------|'',
             ascii ''| '' @ [128308] @ ascii '' Critical | 1 |'',
             ascii ''| '' @ [128992] @ ascii '' High | 0 |'',
             ascii ''| '' @ [128993] @ ascii '' Medium | 0 |'',
             ascii ''| '' @ [128994] @ ascii '' Low | 0 |'',
             []]
          @ category_lines (snd (count_threats (get (stride_analysis english_report) [])))
          @ footer_lines)"
proof -
  have pt: "count_with severity (ascii ''Critical'') (all_threats portuguese_report) = 0"
    "count_with severity (ascii ''High'') (all_threats portuguese_report) = 0"
    "count_with severity (ascii ''Medium'') (all_threats portuguese_report) = 0"
    "count_with severity (ascii ''Low'') (all_threats portuguese_report) = 0"
    by (simp_all add: count_with_def portuguese_report_def sample_all_threats threat_of_def ascii_def)
  have en: "count_with severity (ascii ''Critical'') (all_threats english_report) = 1"
    "count_with severity (ascii ''High'') (all_threats english_report) = 0"
    "count_with severity (ascii ''Medium'') (all_threats english_report) = 0"
    "count_with severity (ascii ''Low'') (all_threats english_report) = 0"
    by (simp_all add: count_with_def english_report_def sample_all_threats threat_of_def ascii_def)
  have o: "get (overall_risk_level portuguese_report) na = na"
    "get (executive_summary portuguese_report) na = na"
    "get (overall_risk_level english_report) na = na"
    "get (executive_summary english_report) na = na"
    by (simp_all add: portuguese_report_def english_report_def report_of_def get_def)
  show ?thesis
    unfolding empty_document_lines severity_lines_exact pt en o str_nat_digit
    by (simp add: ascii_def)
qed

text \<open>
  C2, amended. The two vocabularies are kept apart. Every severity label has its own
  counter: when the table is written, the counter of a label holds the number of threats
  whose severity is that very label, and the counter of \<open>Baixa\<close> also holds the threats
  without a severity. In every report that \<open>generate_report\<close> returns, the rows of
  Critical, High, Medium and Low each show the number of threats whose severity is that
  very English label, so a threat with a Portuguese label adds to none of these four
  counts.
\<close>

theorem english_rows_count_english_labels:
  assumes "fst (generate_report now files components_data stride_data image_path output_path) = Inr report"
  shows
    "(\<forall>label.
        get (fst (count_threats (get (stride_analysis stride_data) [])) label) 0 =
          count_with severity label (all_threats stride_data) +
          (if label = ascii ''Baixa''
           then length (filter (\<lambda>t. severity t = None) (all_threats stride_data)) else 0)) \<and>
     (\<exists>before after.
        report = join [10]
          (before
           @ [ascii ''| '' @ [128308] @ ascii '' Critical | '' @
                str_nat (count_with severity (ascii ''Critical'') (all_threats stride_data)) @ ascii '' |'',
              ascii ''| '' @ [128992] @ ascii '' High | '' @
                str_nat (count_with severity (ascii ''High'') (all_threats stride_data)) @ ascii '' |'',
              ascii ''| '' @ [128993] @ ascii '' Medium | '' @
                str_nat (count_with severity (ascii ''Medium'') (all_threats stride_data)) @ ascii '' |'',
              ascii ''| '' @ [128994] @ ascii '' Low | '' @
                str_nat (count_with severity (ascii ''Low'') (all_threats stride_data)) @ ascii '' |'']
           @ after))"
proof (intro conjI allI)
  fix label
  show "get (fst (count_threats (get (stride_analysis stride_data) [])) label) 0 =
          count_with severity label (all_threats stride_data) +
          (if label = ascii ''Baixa''
           then length (filter (\<lambda>t. severity t = None) (all_threats stride_data)) else 0)"
    by (rule severity_count_with_default)
next
  obtain before where r: "report = join [10] (before
      @ severity_lines (fst (count_threats (get (stride_analysis stride_data) [])))
      @ category_lines (snd (count_threats (get (stride_analysis stride_data) []))) @ footer_lines)"
    using generate_report_tail[OF assms] by blast
  show "\<exists>before after.
        report = join [10]
          (before
           @ [ascii ''| '' @ [128308] @ ascii '' Critical | '' @
                str_nat (count_with severity (ascii ''Critical'') (all_threats stride_data)) @ ascii '' |'',
              ascii ''| '' @ [128992] @ ascii '' High | '' @
                str_nat (count_with severity (ascii ''High'') (all_threats stride_data)) @ ascii '' |'',
              ascii ''| '' @ [128993] @ ascii '' Medium | '' @
                str_nat (count_with severity (ascii ''Medium'') (all_threats stride_data)) @ ascii '' |'',
              ascii ''| '' @ [128994] @ ascii '' Low | '' @
                str_nat (count_with severity (ascii ''Low'') (all_threats stride_data)) @ ascii '' |'']
           @ after)"
    unfolding r severity_lines_exact
    by (intro exI[of _ "before @ [ascii ''### Por Severidade'', [],
           ascii ''| Severidade | Quantidade |'', ascii ''|----------|-------|'']"]
         exI[of _ "[] # category_lines (snd (count_threats (get (stride_analysis stride_data) [])))
           @ footer_lines"]) simp
qed

theorem english_rows_count_english_labels_witness:
  "get (fst (count_threats (get (stride_analysis mixed_report) []))
          (ascii ''Cr'' @ [237] @ ascii ''tica'')) 0 = 1 \<and>
   get (fst (count_threats (get (stride_analysis mixed_report) [])) (ascii ''Critical'')) 0 = 1 \<and>
   get (fst (count_threats (get (stride_analysis mixed_report) [])) (ascii ''Alta'')) 0 = 1 \<and>
   get (fst (count_threats (get (stride_analysis mixed_report) [])) (ascii ''High'')) 0 = 0 \<and>
   (\<exists>report before after.
      fst (generate_report (ascii ''2024-05-01 10:00:00'') Map.empty empty_document mixed_report
             (ascii ''diagram.png'') (ascii ''stride_report.md'')) = Inr report \<and>
      report = join [10]
        (before
         @ [ascii ''| '' @ [128308] @ ascii '' Critical | 1 |'',
            ascii ''| '' @ [128992] @ ascii '' High | 0 |'',
            ascii ''| '' @ [128993] @ ascii '' Medium | 0 |'',
            ascii ''| '' @ [128994] @ ascii '' Low | 0 |'']
         @ after))"
proof -
  obtain report where
    "generate_report (ascii ''2024-05-01 10:00:00'') Map.empty empty_document mixed_report
       (ascii ''diagram.png'') (ascii ''stride_report.md'') =
     (Inr report, [ascii ''stride_report.md'' \<mapsto> report])"
    using sample_report_returns by blast
  then have h: "fst (generate_report (ascii ''2024-05-01 10:00:00'') Map.empty empty_document
      mixed_report (ascii ''diagram.png'') (ascii ''stride_report.md'')) = Inr report"
    by simp
  note inst = english_rows_count_english_labels[OF h]
  have n: "count_with severity (ascii ''Critical'') (all_threats mixed_report) = 1"
    "count_with severity (ascii ''High'') (all_threats mixed_report) = 0"
    "count_with severity (ascii ''Medium'') (all_threats mixed_report) = 0"
    "count_with severity (ascii ''Low'') (all_threats mixed_report) = 0"
    "count_with severity (ascii ''Cr'' @ [237] @ ascii ''tica'') (all_threats mixed_report) = 1"
    "count_with severity (ascii ''Alta'') (all_threats mixed_report) = 1"
    by (simp_all add: count_with_def mixed_report_def sample_all_threats threat_of_def ascii_def)
  have ne: "ascii ''Cr'' @ [237] @ ascii ''tica'' \<noteq> ascii ''Baixa''"
    "ascii ''Critical'' \<noteq> ascii ''Baixa''" "ascii ''Alta'' \<noteq> ascii ''Baixa''"
    "ascii ''High'' \<noteq> ascii ''Baixa''"
    by (simp_all add: ascii_def)
  from inst have c:
    "get (fst (count_threats (get (stride_analysis mixed_report) []))
          (ascii ''Cr'' @ [237] @ ascii ''tica'')) 0 = 1"
    "get (fst (count_threats (get (stride_analysis mixed_report) [])) (ascii ''Critical'')) 0 = 1"
    "get (fst (count_threats (get (stride_analysis mixed_report) [])) (ascii ''Alta'')) 0 = 1"
    "get (fst (count_threats (get (stride_analysis mixed_report) [])) (ascii ''High'')) 0 = 0"
    using n ne by simp_all
  from inst obtain before after where
    "report = join [10]
         (before
          @ [ascii ''| '' @ [128308] @ ascii '' Critical | '' @
               str_nat (count_with severity (ascii ''Critical'') (all_threats mixed_report)) @ ascii '' |'',
             ascii ''| '' @ [128992] @ ascii '' High | '' @
               str_nat (count_with severity (ascii ''High'') (all_threats mixed_report)) @ ascii '' |'',
             ascii ''| '' @ [128993] @ ascii '' Medium | '' @
               str_nat (count_with severity (ascii ''Medium'') (all_threats mixed_report)) @ ascii '' |'',
             ascii ''| '' @ [128994] @ ascii '' Low | '' @
               str_nat (count_with severity (ascii ''Low'') (all_threats mixed_report)) @ ascii '' |'']
          @ after)"
    by blast
  then have "report = join [10]
       (before
        @ [ascii ''| '' @ [128308] @ ascii '' Critical | 1 |'',
           ascii ''| '' @ [128992] @ ascii '' High | 0 |'',
           ascii ''| '' @ [128993] @ ascii '' Medium | 0 |'',
           ascii ''| '' @ [128994] @ ascii '' Low | 0 |'']
        @ after)"
    unfolding n str_nat_digit by (simp add: ascii_def)
  with c h show ?thesis by blast
qed


lemma emoji_is_neutral:
  "(get (map_of SEVERITY_EMOJI sev) white_circle = white_circle) =
   (sev \<notin> {ascii ''Critical'', ascii ''High'', ascii ''Medium'', ascii ''Low''})"
  by (simp add: SEVERITY_EMOJI_def white_circle_def get_def)

lemma severity_row_skipped:
  "(severity_row sc sev = []) = (get (map_of SEVERITY_EMOJI sev) white_circle = white_circle)"
  by (simp add: severity_row_def Let_def)

text \<open>
  C10. The counter of a label counts the threats with that label, and the counter of
  \<open>Baixa\<close> also counts the threats without a severity. Only the four labels of
  \<open>SEVERITY_EMOJI\<close> have an emoji other than the white circle, a label is given a row
  exactly when its emoji is not the white circle, and so the four Portuguese labels get no
  row: in every report that \<open>generate_report\<close> returns, the severity table consists of the
  rows of Critical, High, Medium and Low.
\<close>

theorem portuguese_buckets_not_shown:
  "(\<forall>k. get (fst (count_threats (get (stride_analysis stride_data) [])) k) 0 =
        count_with severity k (all_threats stride_data) +
        (if k = ascii ''Baixa''
         then length (filter (\<lambda>t. severity t = None) (all_threats stride_data)) else 0)) \<and>
   (\<forall>sev. (get (map_of SEVERITY_EMOJI sev) white_circle \<noteq> white_circle) =
        (sev \<in> {ascii ''Critical'', ascii ''High'', ascii ''Medium'', ascii ''Low''})) \<and>
   (\<forall>counts sev. (severity_row counts sev = []) =
        (get (map_of SEVERITY_EMOJI sev) white_circle = white_circle)) \<and>
   (\<forall>counts. severity_row counts (ascii ''Cr'' @ [237] @ ascii ''tica'') = [] \<and>
        severity_row counts (ascii ''Alta'') = [] \<and>
        severity_row counts (ascii ''M'' @ [233] @ ascii ''dia'') = [] \<and>
        severity_row counts (ascii ''Baixa'') = []) \<and>
   (\<forall>report.
      fst (generate_report now files components_data stride_data image_path output_path) = Inr report \<longrightarrow>
      (\<exists>before. report = join [10]
         (before
          @ [ascii ''### Por Severidade'', [],
             ascii ''| Severidade | Quantidade |'',
             ascii ''|----------|-------|'',
             ascii ''| '' @ [128308] @ ascii '' Critical | '' @
               str_nat (count_with severity (ascii ''Critical'') (all_threats stride_data)) @ ascii '' |'',
             ascii ''| '' @ [128992] @ ascii '' High | '' @
               str_nat (count_with severity (ascii ''High'') (all_threats stride_data)) @ ascii '' |'',
             ascii ''| '' @ [128993] @ ascii '' Medium | '' @
               str_nat (count_with severity (ascii ''Medium'') (all_threats stride_data)) @ ascii '' |'',
             ascii ''| '' @ [128994] @ ascii '' Low | '' @
               str_nat (count_with severity (ascii ''Low'') (all_threats stride_data)) @ ascii '' |'',
             []]
          @ category_lines (snd (count_threats (get (stride_analysis stride_data) [])))
          @ footer_lines)))"
proof (intro conjI allI impI)
  fix k
  show "get (fst (count_threats (get (stride_analysis stride_data) [])) k) 0 =
        count_with severity k (all_threats stride_data) +
        (if k = ascii ''Baixa''
         then length (filter (\<lambda>t. severity t = None) (all_threats stride_data)) else 0)"
    by (rule severity_count_with_default)
next
  fix sev
  show "(get (map_of SEVERITY_EMOJI sev) white_circle \<noteq> white_circle) =
        (sev \<in> {ascii ''Critical'', ascii ''High'', ascii ''Medium'', ascii ''Low''})"
    using emoji_is_neutral[of sev] by blast
next
  fix counts sev
  show "(severity_row counts sev = []) =
        (get (map_of SEVERITY_EMOJI sev) white_circle = white_circle)"
    by (rule severity_row_skipped)
next
  fix counts :: counts
  show "severity_row counts (ascii ''Cr'' @ [237] @ ascii ''tica'') = []"
    "severity_row counts (ascii ''Alta'') = []"
    "severity_row counts (ascii ''M'' @ [233] @ ascii ''dia'') = []"
    "severity_row counts (ascii ''Baixa'') = []"
    using severity_row_label(5-8)[of counts] by simp_all
next
  fix report
  assume "fst (generate_report now files components_data stride_data image_path output_path) = Inr report"
  from generate_report_tail[OF this] show "\<exists>before. report = join [10]
         (before
          @ [ascii ''### Por Severidade'', [],
             ascii ''| Severidade | Quantidade |'',
             ascii ''|----------|-------|'',
             ascii ''| '' @ [128308] @ ascii '' Critical | '' @
               str_nat (count_with severity (ascii ''Critical'') (all_threats stride_data)) @ ascii '' |'',
             ascii ''| '' @ [128992] @ ascii '' High | '' @
               str_nat (count_with severity (ascii ''High'') (all_threats stride_data)) @ ascii '' |'',
             ascii ''| '' @ [128993] @ ascii '' Medium | '' @
               str_nat (count_with severity (ascii ''Medium'') (all_threats stride_data)) @ ascii '' |'',
             ascii ''| '' @ [128994] @ ascii '' Low | '' @
               str_nat (count_with severity (ascii ''Low'') (all_threats stride_data)) @ ascii '' |'',
             []]
          @ category_lines (snd (count_threats (get (stride_analysis stride_data) [])))
          @ footer_lines)"
    unfolding severity_lines_exact .
qed

theorem portuguese_buckets_not_shown_witness:
  "get (fst (count_threats (get (stride_analysis mixed_report) [])) (ascii ''Baixa'')) 0 = 1 \<and>
   get (fst (count_threats (get (stride_analysis mixed_report) [])) (ascii ''Alta'')) 0 = 1 \<and>
   (\<exists>report before.
      fst (generate_report [] Map.empty empty_document mixed_report [] []) = Inr report \<and>
      report = join [10]
         (before
          @ [ascii ''### Por Severidade'', [],
             ascii ''| Severidade | Quantidade |'',
             ascii ''|----------|-------|'',
             ascii ''| '' @ [128308] @ ascii '' Critical | 1 |'',
             ascii ''| '' @ [128992] @ ascii '' High | 0 |'',
             ascii ''| '' @ [128993] @ ascii '' Medium | 0 |'',
             ascii ''| '' @ [128994] @ ascii '' Low | 0 |'',
             []]
          @ category_lines (snd (count_threats (get (stride_analysis mixed_report) [])))
          @ footer_lines))"
proof -
  note inst = portuguese_buckets_not_shown[of mixed_report "[]" Map.empty empty_document "[]" "[]"]
  obtain report where
    "generate_report [] Map.empty empty_document mixed_report [] [] = (Inr report, [[] \<mapsto> report])"
    using sample_report_returns by blast
  then have h: "fst (generate_report [] Map.empty empty_document mixed_report [] []) = Inr report"
    by simp
  have n: "count_with severity (ascii ''Critical'') (all_threats mixed_report) = 1"
    "count_with severity (ascii ''High'') (all_threats mixed_report) = 0"
    "count_with severity (ascii ''Medium'') (all_threats mixed_report) = 0"
    "count_with severity (ascii ''Low'') (all_threats mixed_report) = 0"
    "count_with severity (ascii ''Baixa'') (all_threats mixed_report) = 0"
    "count_with severity (ascii ''Alta'') (all_threats mixed_report) = 1"
    "length (filter (\<lambda>t. severity t = None) (all_threats mixed_report)) = 1"
    "ascii ''Alta'' \<noteq> ascii ''Baixa''"
    by (simp_all add: count_with_def mixed_report_def sample_all_threats threat_of_def ascii_def)
  from inst have a: "get (fst (count_threats (get (stride_analysis mixed_report) [])) (ascii ''Baixa'')) 0 = 1"
    and b: "get (fst (count_threats (get (stride_analysis mixed_report) [])) (ascii ''Alta'')) 0 = 1"
    using n by simp_all
  from inst h obtain before where "report = join [10]
         (before
          @ [ascii ''### Por Severidade'', [],
             ascii ''| Severidade | Quantidade |'',
             ascii ''|----------|-------|'',
             ascii ''| '' @ [128308] @ ascii '' Critical | '' @
               str_nat (count_with severity (ascii ''Critical'') (all_threats mixed_report)) @ ascii '' |'',
             ascii ''| '' @ [128992] @ ascii '' High | '' @
               str_nat (count_with severity (ascii ''High'') (all_threats mixed_report)) @ ascii '' |'',
             ascii ''| '' @ [128993] @ ascii '' Medium | '' @
               str_nat (count_with severity (ascii ''Medium'') (all_threats mixed_report)) @ ascii '' |'',
             ascii ''| '' @ [128994] @ ascii '' Low | '' @
               str_nat (count_with severity (ascii ''Low'') (all_threats mixed_report)) @ ascii '' |'',
             []]
          @ category_lines (snd (count_threats (get (stride_analysis mixed_report) [])))
          @ footer_lines)"
    by blast
  then have "report = join [10]
         (before
          @ [ascii ''### Por Severidade'', [],
             ascii ''| Severidade | Quantidade |'',
             ascii ''|----------|-------|'',
             ascii ''| '' @ [128308] @ ascii '' Critical | 1 |'',
             ascii ''| '' @ [128992] @ ascii '' High | 0 |'',
             ascii ''| '' @ [128993] @ ascii '' Medium | 0 |'',
             ascii ''| '' @ [128994] @ ascii '' Low | 0 |'',
             []]
          @ category_lines (snd (count_threats (get (stride_analysis mixed_report) [])))
          @ footer_lines)"
    unfolding n str_nat_digit by (simp add: ascii_def)
  with a b h show ?thesis by blast
qed

section \<open>Failure and the time of the run\<close>


lemma data_flow_loop_fails:
  "(data_flow_loop comps = Inl e) =
     (e = KeyError (ascii ''name'') \<and>
      (\<exists>c\<in>set comps. get (connections c) [] \<noteq> [] \<and> name c = None))"
proof (induction comps)
  case Nil
  then show ?case by simp
next
  case (Cons c comps)
  show ?case
  proof (cases "get (connections c) [] = []")
    case True
    then show ?thesis using Cons.IH by auto
  next
    case False
    show ?thesis
    proof (cases "name c")
      case None
      then show ?thesis using False by (auto simp: getitem_def Let_def)
    next
      case (Some n)
      then show ?thesis using False Cons.IH
        by (auto simp: getitem_def Let_def split: sum.splits)
    qed
  qed
qed

lemma generate_report_fails:
  assumes "data_flow_loop (get (components cd) []) = Inl e"
  shows "generate_report now files cd sd ip op = (Inl e, files)"
  using assms
  by (simp add: generate_report_def report_lines_def data_flow_lines_def Let_def)

lemma data_flow_loop_returns:
  assumes "\<not> (\<exists>c \<in> set comps. get (connections c) [] \<noteq> [] \<and> name c = None)"
  shows "data_flow_loop comps =
     Inr (concat (map (\<lambda>c.
            let conns = (case connections c of None \<Rightarrow> [] | Some v \<Rightarrow> v)
            in if conns = [] then []
               else [ascii ''### '' @ the (name c)]
                    @ map (\<lambda>conn.
                        ascii ''- '' @ [8594] @ ascii '' **'' @
                        (case target conn of None \<Rightarrow> ascii ''?'' | Some v \<Rightarrow> v) @
                        ascii ''**: '' @
                        (case data_flow conn of None \<Rightarrow> ascii ''?'' | Some v \<Rightarrow> v)) conns
                    @ [[]]) comps))"
  using assms
proof (induction comps)
  case Nil
  then show ?case by simp
next
  case (Cons c comps)
  then have ih: "data_flow_loop comps =
     Inr (concat (map (\<lambda>c.
            let conns = (case connections c of None \<Rightarrow> [] | Some v \<Rightarrow> v)
            in if conns = [] then []
               else [ascii ''### '' @ the (name c)]
                    @ map (\<lambda>conn.
                        ascii ''- '' @ [8594] @ ascii '' **'' @
                        (case target conn of None \<Rightarrow> ascii ''?'' | Some v \<Rightarrow> v) @
                        ascii ''**: '' @
                        (case data_flow conn of None \<Rightarrow> ascii ''?'' | Some v \<Rightarrow> v)) conns
                    @ [[]]) comps))"
    by simp
  show ?case
  proof (cases "get (connections c) [] = []")
    case True
    then show ?thesis using ih by (simp add: get_def)
  next
    case False
    then obtain n where "name c = Some n" using Cons.prems by auto
    then show ?thesis
      using False ih by (simp add: get_def getitem_def connection_line_def Let_def)
  qed
qed

lemma get_case: "(case x of None \<Rightarrow> d | Some v \<Rightarrow> v) = get x d"
  by (simp add: get_def)

lemma emoji_cases:
  "get (map_of SEVERITY_EMOJI sev) white_circle =
     (if sev = ascii ''Critical'' then [128308]
      else if sev = ascii ''High'' then [128992]
      else if sev = ascii ''Medium'' then [128993]
      else if sev = ascii ''Low'' then [128994]
      else [9898])"
  by (simp add: SEVERITY_EMOJI_def white_circle_def get_def)

lemma category_lines_exact:
  "category_lines (snd (count_threats (get (stride_analysis sd) []))) =
     [ascii ''### Por Categoria STRIDE'', [],
      ascii ''| Categoria | Quantidade |'',
      ascii ''|----------|-------|'']
     @ map (\<lambda>cat. ascii ''| '' @ cat @ ascii '' | '' @
                   str_nat (count_with category cat (all_threats sd)) @ ascii '' |'')
         [ascii ''Spoofing'', ascii ''Tampering'', ascii ''Repudiation'',
          ascii ''Information Disclosure'', ascii ''Denial of Service'',
          ascii ''Elevation of Privilege'']
     @ [[]]"
proof -
  have ne: "ascii ''Spoofing'' \<noteq> ascii ''Outro''" "ascii ''Tampering'' \<noteq> ascii ''Outro''"
    "ascii ''Repudiation'' \<noteq> ascii ''Outro''" "ascii ''Information Disclosure'' \<noteq> ascii ''Outro''"
    "ascii ''Denial of Service'' \<noteq> ascii ''Outro''" "ascii ''Elevation of Privilege'' \<noteq> ascii ''Outro''"
    by (simp_all add: ascii_def)
  show ?thesis
    unfolding category_lines_rows list.map
      category_count[OF ne(1)] category_count[OF ne(2)] category_count[OF ne(3)]
      category_count[OF ne(4)] category_count[OF ne(5)] category_count[OF ne(6)]
    by (rule refl)
qed

text \<open>
  C9. When some component has a connection and no \<open>name\<close>, \<open>generate_report\<close> raises
  KeyError for \<open>name\<close> and writes nothing. In every other case it returns and writes the
  report given here line by line, in which every key that is missing is replaced by its
  default: \<open>N/A\<close> for the risk level, the two summaries, the four texts of a component and
  the category, text and severity of a threat; \<open>?\<close> for the target and the flow of a
  connection; \<open>Desconhecido\<close> for the name and the type of an entry; the white circle for
  a severity without emoji; and the empty list for components, connections, entries,
  threats, vulnerabilities and countermeasures. In the counters, a threat without
  severity counts as \<open>Baixa\<close> and a threat without category as \<open>Outro\<close>.
\<close>

theorem missing_name_is_the_only_failure:
  "((\<exists>c \<in> set (get (components components_data) []).
        get (connections c) [] \<noteq> [] \<and> name c = None) \<longrightarrow>
      generate_report now files components_data stride_data image_path output_path =
        (Inl (KeyError (ascii ''name'')), files)) \<and>
   (\<not> (\<exists>c \<in> set (get (components components_data) []).
        get (connections c) [] \<noteq> [] \<and> name c = None) \<longrightarrow>
      (let na = ascii ''N/A'';
           unknown = ascii ''Desconhecido'';
           emoji = (\<lambda>sev.
              if sev = ascii ''Critical'' then [128308]
              else if sev = ascii ''High'' then [128992]
              else if sev = ascii ''Medium'' then [128993]
              else if sev = ascii ''Low'' then [128994]
              else [9898]);
           comps = (case components components_data of None \<Rightarrow> [] | Some v \<Rightarrow> v);
           analysis = (case stride_analysis stride_data of None \<Rightarrow> [] | Some v \<Rightarrow> v);
           risk = (case overall_risk_level stride_data of None \<Rightarrow> na | Some v \<Rightarrow> v);
           report = join [10]
            ([ascii ''# '' @ [128737, 65039] @ ascii '' Relat'' @ [243] @ ascii ''rio de Modelagem de Amea'' @ [231] @ ascii ''as STRIDE'',
              [],
              ascii ''**Gerado em:** '' @ now @ ascii ''  '',
              ascii ''**Diagrama de Origem:** '' @ [96] @ image_path @ [96] @ ascii ''  '',
              ascii ''**N'' @ [237] @ ascii ''vel de Risco Geral:** '' @ emoji risk @ ascii '' **'' @ risk @ ascii ''**'',
              [],
              ascii ''---'',
              [],
              ascii ''## '' @ [128203] @ ascii '' Resumo Executivo'',
              [],
              (case executive_summary stride_data of None \<Rightarrow> na | Some v \<Rightarrow> v),
              [],
              ascii ''## '' @ [127959, 65039] @ ascii '' Vis'' @ [227] @ ascii ''o Geral da Arquitetura'',
              [],
              (case architecture_summary components_data of None \<Rightarrow> na | Some v \<Rightarrow> v),
              [],
              ascii ''## '' @ [129513] @ ascii '' Componentes Identificados'',
              [],
              ascii ''| # | Componente | Tipo | Provedor | Descri'' @ [231, 227] @ ascii ''o |'',
              ascii ''|---|-----------|------|----------|-----------|'']
             @ map (\<lambda>(i, c).
                  ascii ''| '' @ str_nat i @ ascii '' | **'' @
                  (case name c of None \<Rightarrow> na | Some v \<Rightarrow> v) @ ascii ''** | '' @
                  (case type c of None \<Rightarrow> na | Some v \<Rightarrow> v) @ ascii '' '' @ ascii ''| '' @
                  (case provider c of None \<Rightarrow> na | Some v \<Rightarrow> v) @ ascii '' | '' @
                  (case description c of None \<Rightarrow> na | Some v \<Rightarrow> v) @ ascii '' |'')
                 (enumerate 1 comps)
             @ [[],
                ascii ''## '' @ [128260] @ ascii '' Fluxo de Dados'',
                []]
             @ concat (map (\<lambda>c.
                  let conns = (case connections c of None \<Rightarrow> [] | Some v \<Rightarrow> v)
                  in if conns = [] then []
                     else [ascii ''### '' @ the (name c)]
                          @ map (\<lambda>conn.
                              ascii ''- '' @ [8594] @ ascii '' **'' @
                              (case target conn of None \<Rightarrow> ascii ''?'' | Some v \<Rightarrow> v) @
                              ascii ''**: '' @
                              (case data_flow conn of None \<Rightarrow> ascii ''?'' | Some v \<Rightarrow> v)) conns
                          @ [[]]) comps)
             @ [ascii ''---'',
                [],
                ascii ''## '' @ [128269] @ ascii '' An'' @ [225] @ ascii ''lise de Amea'' @ [231] @ ascii ''as STRIDE'',
                []]
             @ concat (map (\<lambda>entry.
                  [ascii ''### '' @ [128313] @ ascii '' '' @
                     (case component_name entry of None \<Rightarrow> unknown | Some v \<Rightarrow> v) @
                     ascii '' ('' @
                     (case component_type entry of None \<Rightarrow> unknown | Some v \<Rightarrow> v) @
                     ascii '')'',
                   []]
                  @ (let ts = (case threats entry of None \<Rightarrow> [] | Some v \<Rightarrow> v)
                     in if ts = [] then
                          [ascii ''_Nenhuma amea'' @ [231] @ ascii ''a significativa identificada._'', []]
                        else
                          [ascii ''| Categoria | Amea'' @ [231] @ ascii ''a | Severidade | Vulnerabilidades | Contramedidas |'',
                           ascii ''|-----------|--------|-----------|-------------------|----|'']
                          @ map (\<lambda>t.
                              let sev = (case severity t of None \<Rightarrow> na | Some v \<Rightarrow> v)
                              in ascii ''| **'' @
                                 (case category t of None \<Rightarrow> na | Some v \<Rightarrow> v) @
                                 ascii ''** | '' @
                                 (case threat t of None \<Rightarrow> na | Some v \<Rightarrow> v) @
                                 ascii '' | '' @ emoji sev @ ascii '' '' @ sev @ ascii '' | '' @
                                 join (ascii ''; '')
                                   (case vulnerabilities t of None \<Rightarrow> [] | Some v \<Rightarrow> v) @
                                 ascii '' | '' @
                                 join (ascii ''; '')
                                   (case countermeasures t of None \<Rightarrow> [] | Some v \<Rightarrow> v) @
                                 ascii '' |'') ts
                          @ [[]])) analysis)
             @ [ascii ''---'',
                [],
                ascii ''## '' @ [128202] @ ascii '' Matriz de Resumo de Risco'',
                [],
                ascii ''### Por Severidade'',
                [],
                ascii ''| Severidade | Quantidade |'',
                ascii ''|----------|-------|'',
                ascii ''| '' @ [128308] @ ascii '' Critical | '' @
                  str_nat (count_with severity (ascii ''Critical'') (all_threats stride_data)) @
                  ascii '' |'',
                ascii ''| '' @ [128992] @ ascii '' High | '' @
                  str_nat (count_with severity (ascii ''High'') (all_threats stride_data)) @
                  ascii '' |'',
                ascii ''| '' @ [128993] @ ascii '' Medium | '' @
                  str_nat (count_with severity (ascii ''Medium'') (all_threats stride_data)) @
                  ascii '' |'',
                ascii ''| '' @ [128994] @ ascii '' Low | '' @
                  str_nat (count_with severity (ascii ''Low'') (all_threats stride_data)) @
                  ascii '' |'',
                [],
                ascii ''### Por Categoria STRIDE'',
                [],
                ascii ''| Categoria | Quantidade |'',
                ascii ''|----------|-------|'']
             @ map (\<lambda>cat. ascii ''| '' @ cat @ ascii '' | '' @
                       str_nat (count_with category cat (all_threats stride_data)) @ ascii '' |'')
                 [ascii ''Spoofing'', ascii ''Tampering'', ascii ''Repudiation'',
                  ascii ''Information Disclosure'', ascii ''Denial of Service'',
                  ascii ''Elevation of Privilege'']
             @ [[],
                ascii ''---'',
                [],
                ascii ''*Este relat'' @ [243] @ ascii ''rio foi gerado automaticamente usando an'' @ [225] @ ascii ''lise de arquitetura com IA '' @
                ascii ''e modelagem de amea'' @ [231] @ ascii ''as STRIDE. Os achados devem ser revisados e validados por um '' @
                ascii ''profissional de seguran'' @ [231] @ ascii ''a qualificado.*'',
                []])
       in generate_report now files components_data stride_data image_path output_path =
            (Inr report, files(output_path \<mapsto> report)) \<and>
          (\<forall>label.
             get (fst (count_threats analysis) label) 0 =
               length (filter (\<lambda>t. (case severity t of None \<Rightarrow> ascii ''Baixa'' | Some v \<Rightarrow> v) = label)
                         (all_threats stride_data)) \<and>
             get (snd (count_threats analysis) label) 0 =
               length (filter (\<lambda>t. (case category t of None \<Rightarrow> ascii ''Outro'' | Some v \<Rightarrow> v) = label)
                         (all_threats stride_data)))))"
  (is "_ \<and> (_ \<longrightarrow> ?second)")
proof (intro conjI impI)
  assume "\<exists>c \<in> set (get (components components_data) []).
            get (connections c) [] \<noteq> [] \<and> name c = None"
  then have "data_flow_loop (get (components components_data) []) = Inl (KeyError (ascii ''name''))"
    by (simp add: data_flow_loop_fails)
  then show "generate_report now files components_data stride_data image_path output_path =
        (Inl (KeyError (ascii ''name'')), files)"
    by (rule generate_report_fails)
next
  assume no: "\<not> (\<exists>c \<in> set (get (components components_data) []).
            get (connections c) [] \<noteq> [] \<and> name c = None)"
  note flow = data_flow_loop_returns[OF no, unfolded get_case Let_def]
  show "?second"
    unfolding Let_def get_case
  proof (intro conjI allI, goal_cases)
    case 1
    show ?case (is "_ = (Inr (join [10] ?lines), _)")
    proof -
      have "report_lines now components_data stride_data image_path = Inr ?lines"
        by (simp add: report_lines_def data_flow_lines_def flow
              header_lines_def summary_lines_def component_lines_def component_row_def
              stride_lines_def entry_lines_def[abs_def] threat_row_def[abs_def]
              matrix_lines_def footer_lines_def
              severity_lines_exact category_lines_exact emoji_cases na_def Let_def split_beta
              cong: if_cong)
      then show ?thesis
        by (simp only: generate_report_def sum.case Let_def)
    qed
  next
    case (2 label)
    show ?case by (rule severity_count_shown)
  next
    case (3 label)
    show ?case by (rule category_count_shown)
  qed
qed

theorem missing_name_is_the_only_failure_witness:
  "generate_report (ascii ''2024-05-01 10:00:00'') Map.empty nameless_document sparse_report
     (ascii ''diagram.png'') (ascii ''stride_report.md'') =
     (Inl (KeyError (ascii ''name'')), Map.empty) \<and>
   fst (generate_report (ascii ''2024-05-01 10:00:00'') Map.empty sparse_document sparse_report
     (ascii ''diagram.png'') (ascii ''stride_report.md'')) =
     Inr (join [10]
       [ascii ''# '' @ [128737, 65039] @ ascii '' Relat'' @ [243] @ ascii ''rio de Modelagem de Amea'' @ [231] @ ascii ''as STRIDE'',
        [],
        ascii ''**Gerado em:** 2024-05-01 10:00:00  '',
        ascii ''**Diagrama de Origem:** '' @ [96] @ ascii ''diagram.png'' @ [96] @ ascii ''  '',
        ascii ''**N'' @ [237] @ ascii ''vel de Risco Geral:** '' @ [9898] @ ascii '' **N/A**'',
        [],
        ascii ''---'',
        [],
        ascii ''## '' @ [128203] @ ascii '' Resumo Executivo'',
        [],
        ascii ''N/A'',
        [],
        ascii ''## '' @ [127959, 65039] @ ascii '' Vis'' @ [227] @ ascii ''o Geral da Arquitetura'',
        [],
        ascii ''N/A'',
        [],
        ascii ''## '' @ [129513] @ ascii '' Componentes Identificados'',
        [],
        ascii ''| # | Componente | Tipo | Provedor | Descri'' @ [231, 227] @ ascii ''o |'',
        ascii ''|---|-----------|------|----------|-----------|'',
        ascii ''| 1 | **N/A** | N/A | N/A | N/A |'',
        ascii ''| 2 | **A** | N/A | N/A | N/A |'',
        [],
        ascii ''## '' @ [128260] @ ascii '' Fluxo de Dados'',
        [],
        ascii ''### A'',
        ascii ''- '' @ [8594] @ ascii '' **?**: ?'',
        [],
        ascii ''---'',
        [],
        ascii ''## '' @ [128269] @ ascii '' An'' @ [225] @ ascii ''lise de Amea'' @ [231] @ ascii ''as STRIDE'',
        [],
        ascii ''### '' @ [128313] @ ascii '' Desconhecido (Desconhecido)'',
        [],
        ascii ''| Categoria | Amea'' @ [231] @ ascii ''a | Severidade | Vulnerabilidades | Contramedidas |'',
        ascii ''|-----------|--------|-----------|-------------------|----|'',
        ascii ''| **N/A** | N/A | '' @ [9898] @ ascii '' N/A |  |  |'',
        [],
        ascii ''### '' @ [128313] @ ascii '' Desconhecido (Desconhecido)'',
        [],
        ascii ''_Nenhuma amea'' @ [231] @ ascii ''a significativa identificada._'',
        [],
        ascii ''---'',
        [],
        ascii ''## '' @ [128202] @ ascii '' Matriz de Resumo de Risco'',
        [],
        ascii ''### Por Severidade'',
        [],
        ascii ''| Severidade | Quantidade |'',
        ascii ''|----------|-------|'',
        ascii ''| '' @ [128308] @ ascii '' Critical | 0 |'',
        ascii ''| '' @ [128992] @ ascii '' High | 0 |'',
        ascii ''| '' @ [128993] @ ascii '' Medium | 0 |'',
        ascii ''| '' @ [128994] @ ascii '' Low | 0 |'',
        [],
        ascii ''### Por Categoria STRIDE'',
        [],
        ascii ''| Categoria | Quantidade |'',
        ascii ''|----------|-------|'',
        ascii ''| Spoofing | 0 |'',
        ascii ''| Tampering | 0 |'',
        ascii ''| Repudiation | 0 |'',
        ascii ''| Information Disclosure | 0 |'',
        ascii ''| Denial of Service | 0 |'',
        ascii ''| Elevation of Privilege | 0 |'',
        [],
        ascii ''---'',
        [],
        ascii ''*Este relat'' @ [243] @ ascii ''rio foi gerado automaticamente usando an'' @ [225] @ ascii ''lise de arquitetura com IA '' @
        ascii ''e modelagem de amea'' @ [231] @ ascii ''as STRIDE. Os achados devem ser revisados e validados por um '' @
        ascii ''profissional de seguran'' @ [231] @ ascii ''a qualificado.*'',
        []]) \<and>
   get (fst (count_threats (get (stride_analysis sparse_report) [])) (ascii ''Baixa'')) 0 = 1 \<and>
   get (snd (count_threats (get (stride_analysis sparse_report) [])) (ascii ''Outro'')) 0 = 1"
  using
    missing_name_is_the_only_failure[of nameless_document "ascii ''2024-05-01 10:00:00''"
      Map.empty sparse_report "ascii ''diagram.png''" "ascii ''stride_report.md''"]
    missing_name_is_the_only_failure[of sparse_document "ascii ''2024-05-01 10:00:00''"
      Map.empty sparse_report "ascii ''diagram.png''" "ascii ''stride_report.md''"]
  by (simp add: Let_def nameless_document_def sparse_document_def sparse_report_def
        bare_component_def threat_of_def get_def all_threats_def count_with_def
        enumerate_eq_zip upt_rec str_nat.simps ascii_def)

text \<open>
  C7. The time of the run enters the report in one place only. For given documents and
  paths, either every run raises the same error and writes nothing, or there are a first
  line and a list of further lines, the same for every run, such that the report of a
  run is these lines with the line of the time as third line, and that text is what the
  run writes.
\<close>

theorem report_depends_on_time_in_one_line:
  "(\<exists>e. \<forall>now.
      generate_report now files components_data stride_data image_path output_path = (Inl e, files)) \<or>
   (\<exists>title rest. \<forall>now.
      generate_report now files components_data stride_data image_path output_path =
        (Inr (join [10] ([title, [], ascii ''**Gerado em:** '' @ now @ ascii ''  ''] @ rest)),
         files(output_path \<mapsto>
           join [10] ([title, [], ascii ''**Gerado em:** '' @ now @ ascii ''  ''] @ rest))))"
proof (cases "data_flow_lines (get (components components_data) [])")
  case (Inl e)
  then have "\<forall>now. generate_report now files components_data stride_data image_path output_path
      = (Inl e, files)"
    by (simp add: generate_report_def report_lines_def Let_def)
  then show ?thesis by blast
next
  case (Inr flow)
  obtain title rest0 where h: "\<And>now. header_lines now image_path
        (get (overall_risk_level stride_data) na)
      = [title, [], ascii ''**Gerado em:** '' @ now @ ascii ''  ''] @ rest0"
    by (simp add: header_lines_def)
  let ?rest = "rest0
      @ summary_lines (get (executive_summary stride_data) na)
          (get (architecture_summary components_data) na)
      @ component_lines (get (components components_data) []) @ flow
      @ stride_lines (get (stride_analysis stride_data) []) @ matrix_lines
      @ severity_lines (fst (count_threats (get (stride_analysis stride_data) [])))
      @ category_lines (snd (count_threats (get (stride_analysis stride_data) [])))
      @ footer_lines"
  have "\<forall>now. generate_report now files components_data stride_data image_path output_path =
        (Inr (join [10] ([title, [], ascii ''**Gerado em:** '' @ now @ ascii ''  ''] @ ?rest)),
         files(output_path \<mapsto>
           join [10] ([title, [], ascii ''**Gerado em:** '' @ now @ ascii ''  ''] @ ?rest)))"
    using Inr by (simp add: generate_report_def report_lines_def Let_def split_beta h)
  then show ?thesis by blast
qed

section \<open>A report of two components\<close>


lemma get_Some: "get (Some v) d = v"
  by (simp add: get_def)

lemma get_None: "get None d = d"
  by (simp add: get_def)

text \<open>
  C6. Take a document with two named components and one connection, from one of them
  (\<open>src\<close>) to the other, and a report with one entry for each component, each with one
  threat of category Spoofing. Then \<open>generate_report\<close> returns the text of these lines:
  the header, the summaries and the table of components; the data flows, with the one
  section of \<open>src\<close> and its one line; the analysis, with a table of one row for each of
  the two components; the severity table; and the category table with Spoofing 2 and 0
  for the five other categories.
\<close>

theorem two_component_scenario:
  assumes "components components_data = Some [c1, c2]"
    and "name c1 = Some n1" and "name c2 = Some n2"
    and "(get (connections c1) [] = [conn] \<and> get (connections c2) [] = [] \<and>
          src = n1 \<and> target conn = Some n2) \<or>
         (get (connections c1) [] = [] \<and> get (connections c2) [] = [conn] \<and>
          src = n2 \<and> target conn = Some n1)"
    and "stride_analysis stride_data = Some [e1, e2]"
    and "component_name e1 = Some n1" and "component_name e2 = Some n2"
    and "threats e1 = Some [t1]" and "threats e2 = Some [t2]"
    and "category t1 = Some (ascii ''Spoofing'')" and "category t2 = Some (ascii ''Spoofing'')"
  shows
    "fst (generate_report now files components_data stride_data image_path output_path) =
       Inr (join [10]
         (header_lines now image_path (get (overall_risk_level stride_data) na)
          @ summary_lines (get (executive_summary stride_data) na)
              (get (architecture_summary components_data) na)
          @ component_lines [c1, c2]
          @ [ascii ''## '' @ [128260] @ ascii '' Fluxo de Dados'', [],
             ascii ''### '' @ src,
             connection_line conn,
             []]
          @ [ascii ''---'', [],
             ascii ''## '' @ [128269] @ ascii '' An'' @ [225] @ ascii ''lise de Amea'' @ [231] @
               ascii ''as STRIDE'',
             []]
          @ [ascii ''### '' @ [128313] @ ascii '' '' @ n1 @ ascii '' ('' @
               get (component_type e1) (ascii ''Desconhecido'') @ ascii '')'',
             [],
             ascii ''| Categoria | Amea'' @ [231] @
               ascii ''a | Severidade | Vulnerabilidades | Contramedidas |'',
             ascii ''|-----------|--------|-----------|-------------------|----|'',
             threat_row t1,
             []]
          @ [ascii ''### '' @ [128313] @ ascii '' '' @ n2 @ ascii '' ('' @
               get (component_type e2) (ascii ''Desconhecido'') @ ascii '')'',
             [],
             ascii ''| Categoria | Amea'' @ [231] @
               ascii ''a | Severidade | Vulnerabilidades | Contramedidas |'',
             ascii ''|-----------|--------|-----------|-------------------|----|'',
             threat_row t2,
             []]
          @ matrix_lines
          @ severity_lines (fst (count_threats [e1, e2]))
          @ [ascii ''### Por Categoria STRIDE'', [],
             ascii ''| Categoria | Quantidade |'',
             ascii ''|----------|-------|'',
             ascii ''| Spoofing | 2 |'',
             ascii ''| Tampering | 0 |'',
             ascii ''| Repudiation | 0 |'',
             ascii ''| Information Disclosure | 0 |'',
             ascii ''| Denial of Service | 0 |'',
             ascii ''| Elevation of Privilege | 0 |'',
             []]
          @ footer_lines))"
proof -
  have flow: "data_flow_lines [c1, c2] =
      Inr [ascii ''## '' @ [128260] @ ascii '' Fluxo de Dados'', [],
           ascii ''### '' @ src, connection_line conn, []]"
    using assms(2-4) by (auto simp: data_flow_lines_def getitem_def Let_def)
  have stride: "stride_lines [e1, e2] =
      [ascii ''---'', [],
       ascii ''## '' @ [128269] @ ascii '' An'' @ [225] @ ascii ''lise de Amea'' @ [231] @
         ascii ''as STRIDE'',
       []]
      @ [ascii ''### '' @ [128313] @ ascii '' '' @ n1 @ ascii '' ('' @
           get (component_type e1) (ascii ''Desconhecido'') @ ascii '')'',
         [],
         ascii ''| Categoria | Amea'' @ [231] @
           ascii ''a | Severidade | Vulnerabilidades | Contramedidas |'',
         ascii ''|-----------|--------|-----------|-------------------|----|'',
         threat_row t1,
         []]
      @ [ascii ''### '' @ [128313] @ ascii '' '' @ n2 @ ascii '' ('' @
           get (component_type e2) (ascii ''Desconhecido'') @ ascii '')'',
         [],
         ascii ''| Categoria | Amea'' @ [231] @
           ascii ''a | Severidade | Vulnerabilidades | Contramedidas |'',
         ascii ''|-----------|--------|-----------|-------------------|----|'',
         threat_row t2,
         []]"
    by (simp add: stride_lines_def entry_lines_def Let_def assms(6-9) get_Some)
  have ts: "all_threats stride_data = [t1, t2]"
    by (simp add: all_threats_def assms(5,8,9) get_Some)
  have ne: "ascii ''Spoofing'' \<noteq> ascii ''Outro''" "ascii ''Tampering'' \<noteq> ascii ''Outro''"
    "ascii ''Repudiation'' \<noteq> ascii ''Outro''" "ascii ''Information Disclosure'' \<noteq> ascii ''Outro''"
    "ascii ''Denial of Service'' \<noteq> ascii ''Outro''" "ascii ''Elevation of Privilege'' \<noteq> ascii ''Outro''"
    by (simp_all add: ascii_def)
  have n: "count_with category (ascii ''Spoofing'') [t1, t2] = 2"
    "count_with category (ascii ''Tampering'') [t1, t2] = 0"
    "count_with category (ascii ''Repudiation'') [t1, t2] = 0"
    "count_with category (ascii ''Information Disclosure'') [t1, t2] = 0"
    "count_with category (ascii ''Denial of Service'') [t1, t2] = 0"
    "count_with category (ascii ''Elevation of Privilege'') [t1, t2] = 0"
    by (simp_all add: count_with_def assms(10,11) ascii_def)
  have an: "get (stride_analysis stride_data) [] = [e1, e2]"
    by (simp add: assms(5) get_Some)
  have counts: "get (snd (count_threats [e1, e2]) (ascii ''Spoofing'')) 0 = 2"
    "get (snd (count_threats [e1, e2]) (ascii ''Tampering'')) 0 = 0"
    "get (snd (count_threats [e1, e2]) (ascii ''Repudiation'')) 0 = 0"
    "get (snd (count_threats [e1, e2]) (ascii ''Information Disclosure'')) 0 = 0"
    "get (snd (count_threats [e1, e2]) (ascii ''Denial of Service'')) 0 = 0"
    "get (snd (count_threats [e1, e2]) (ascii ''Elevation of Privilege'')) 0 = 0"
    using category_count[OF ne(1), of stride_data] category_count[OF ne(2), of stride_data]
      category_count[OF ne(3), of stride_data] category_count[OF ne(4), of stride_data]
      category_count[OF ne(5), of stride_data] category_count[OF ne(6), of stride_data]
    unfolding an ts n by simp_all
  have cats: "category_lines (snd (count_threats [e1, e2])) =
      [ascii ''### Por Categoria STRIDE'', [],
       ascii ''| Categoria | Quantidade |'',
       ascii ''|----------|-------|'',
       ascii ''| Spoofing | 2 |'',
       ascii ''| Tampering | 0 |'',
       ascii ''| Repudiation | 0 |'',
       ascii ''| Information Disclosure | 0 |'',
       ascii ''| Denial of Service | 0 |'',
       ascii ''| Elevation of Privilege | 0 |'',
       []]"
    unfolding category_lines_rows list.map counts str_nat_digit by (simp add: ascii_def)
  have "report_lines now components_data stride_data image_path =
      Inr (header_lines now image_path (get (overall_risk_level stride_data) na)
          @ summary_lines (get (executive_summary stride_data) na)
              (get (architecture_summary components_data) na)
          @ component_lines [c1, c2]
          @ [ascii ''## '' @ [128260] @ ascii '' Fluxo de Dados'', [],
             ascii ''### '' @ src, connection_line conn, []]
          @ stride_lines [e1, e2]
          @ matrix_lines
          @ severity_lines (fst (count_threats [e1, e2]))
          @ category_lines (snd (count_threats [e1, e2]))
          @ footer_lines)"
    by (simp add: report_lines_def Let_def split_beta an assms(1) get_Some flow)
  then show ?thesis
    unfolding generate_report_def stride cats by (simp add: Let_def)
qed

theorem two_component_scenario_witness:
  "fst (generate_report (ascii ''2024-05-01 10:00:00'') Map.empty web_db_document web_db_report
          (ascii ''diagram.png'') (ascii ''stride_report.md'')) =
     Inr (join [10]
       (header_lines (ascii ''2024-05-01 10:00:00'') (ascii ''diagram.png'') na
        @ summary_lines na na
        @ component_lines [web_server, database]
        @ [ascii ''## '' @ [128260] @ ascii '' Fluxo de Dados'', [],
           ascii ''### Web'',
           ascii ''- '' @ [8594] @ ascii '' **DB**: SQL'',
           []]
        @ [ascii ''---'', [],
           ascii ''## '' @ [128269] @ ascii '' An'' @ [225] @ ascii ''lise de Amea'' @ [231] @
             ascii ''as STRIDE'',
           []]
        @ [ascii ''### '' @ [128313] @ ascii '' Web (Desconhecido)'',
           [],
           ascii ''| Categoria | Amea'' @ [231] @
             ascii ''a | Severidade | Vulnerabilidades | Contramedidas |'',
           ascii ''|-----------|--------|-----------|-------------------|----|'',
           ascii ''| **Spoofing** | N/A | '' @ [9898] @ ascii '' Alta |  |  |'',
           []]
        @ [ascii ''### '' @ [128313] @ ascii '' DB (Desconhecido)'',
           [],
           ascii ''| Categoria | Amea'' @ [231] @
             ascii ''a | Severidade | Vulnerabilidades | Contramedidas |'',
           ascii ''|-----------|--------|-----------|-------------------|----|'',
           ascii ''| **Spoofing** | N/A | '' @ [9898] @ ascii '' Alta |  |  |'',
           []]
        @ matrix_lines
        @ severity_lines (fst (count_threats (get (stride_analysis web_db_report) [])))
        @ [ascii ''### Por Categoria STRIDE'', [],
           ascii ''| Categoria | Quantidade |'',
           ascii ''|----------|-------|'',
           ascii ''| Spoofing | 2 |'',
           ascii ''| Tampering | 0 |'',
           ascii ''| Repudiation | 0 |'',
           ascii ''| Information Disclosure | 0 |'',
           ascii ''| Denial of Service | 0 |'',
           ascii ''| Elevation of Privilege | 0 |'',
           []]
        @ footer_lines))"
proof -
  have row: "threat_row spoofing_threat =
      ascii ''| **Spoofing** | N/A | '' @ [9898] @ ascii '' Alta |  |  |''"
    by (simp add: threat_row_def spoofing_threat_def threat_of_def get_def na_def Let_def
          SEVERITY_EMOJI_def white_circle_def ascii_def)
  have line: "connection_line \<lparr>target = Some (ascii ''DB''), data_flow = Some (ascii ''SQL'')\<rparr> =
      ascii ''- '' @ [8594] @ ascii '' **DB**: SQL''"
    by (simp add: connection_line_def get_def Let_def ascii_def)
  show ?thesis
    using two_component_scenario[where components_data = web_db_document
        and stride_data = web_db_report and ?c1.0 = web_server and ?c2.0 = database
        and ?n1.0 = "ascii ''Web''" and ?n2.0 = "ascii ''DB''" and src = "ascii ''Web''"
        and conn = "\<lparr>target = Some (ascii ''DB''), data_flow = Some (ascii ''SQL'')\<rparr>"
        and ?e1.0 = "\<lparr>component_name = Some (ascii ''Web''), component_type = None,
                threats = Some [spoofing_threat]\<rparr>"
        and ?e2.0 = "\<lparr>component_name = Some (ascii ''DB''), component_type = None,
                threats = Some [spoofing_threat]\<rparr>"
        and ?t1.0 = spoofing_threat and ?t2.0 = spoofing_threat
        and now = "ascii ''2024-05-01 10:00:00''" and files = Map.empty
        and image_path = "ascii ''diagram.png''" and output_path = "ascii ''stride_report.md''"]
    unfolding row line
    by (simp add: web_db_document_def web_db_report_def web_server_def database_def
          spoofing_threat_def threat_of_def get_def)
       (simp add: ascii_def)
qed

section \<open>What the functions leave unchanged\<close>


lemma extend_tail:
  "extend (length h) xs (h @ PyList vs # rest) = h @ PyList (vs @ map Str xs) # rest"
proof (induction xs arbitrary: vs)
  case Nil
  then show ?case by (simp add: extend_def)
next
  case (Cons x xs)
  have "list_append (length h) (Str x) (h @ PyList vs # rest) = h @ PyList (vs @ [Str x]) # rest"
    by (simp add: list_append_def)
  then show ?case using Cons.IH[of "vs @ [Str x]"] by (simp add: extend_def)
qed

lemma counters_update:
  "counters (AList.update k (Num n) kv) = (counters kv)(k \<mapsto> n)"
  by (rule ext) (simp add: counters_def update_conv')

lemma counts_of_second:
  "counts_of (h @ [x, Dict ks, y]) (Suc (length h)) = counters ks"
  by (simp add: counts_of_def dict_of_def deref_def nth_append)

lemma counts_of_third:
  "counts_of (h @ [x, y, Dict kc]) (Suc (Suc (length h))) = counters kc"
  by (simp add: counts_of_def dict_of_def deref_def nth_append)

lemma setitem_second:
  "setitem (Suc (length h)) k v (h @ [x, Dict ks, y]) = h @ [x, Dict (AList.update k v ks), y]"
  by (simp add: setitem_def nth_append list_update_append)

lemma setitem_third:
  "setitem (Suc (Suc (length h))) k v (h @ [x, y, Dict kc]) = h @ [x, y, Dict (AList.update k v kc)]"
  by (simp add: setitem_def nth_append list_update_append)

lemma count_threat_h_tail:
  "\<exists>ks' kc'.
     (\<forall>x. count_threat_h (Suc (length h)) (Suc (Suc (length h))) t (h @ [x, Dict ks, Dict kc])
            = h @ [x, Dict ks', Dict kc']) \<and>
     (counters ks', counters kc') = count_threat t (counters ks, counters kc)"
  by (simp add: count_threat_h_def count_threat_def increment_def Let_def counts_of_second
        counts_of_third setitem_second setitem_third counters_update)

lemma fold_count_threat_h_tail:
  "\<exists>ks' kc'.
     (\<forall>x. fold (count_threat_h (Suc (length h)) (Suc (Suc (length h)))) ts
            (h @ [x, Dict ks, Dict kc]) = h @ [x, Dict ks', Dict kc']) \<and>
     (counters ks', counters kc') = fold count_threat ts (counters ks, counters kc)"
proof (induction ts arbitrary: ks kc)
  case Nil
  then show ?case by simp
next
  case (Cons t ts)
  obtain ks1 kc1 where
    1: "\<And>x. count_threat_h (Suc (length h)) (Suc (Suc (length h))) t (h @ [x, Dict ks, Dict kc])
          = h @ [x, Dict ks1, Dict kc1]"
    and 2: "(counters ks1, counters kc1) = count_threat t (counters ks, counters kc)"
    using count_threat_h_tail[of h t ks kc] by blast
  from Cons.IH[of ks1 kc1] show ?case by (simp add: 1 2[symmetric])
qed

lemma count_entries_h_tail:
  "\<exists>ks' kc'.
     (\<forall>x. fold (\<lambda>entry. fold (count_threat_h (Suc (length h)) (Suc (Suc (length h))))
                      (get (threats entry) [])) entries (h @ [x, Dict ks, Dict kc])
           = h @ [x, Dict ks', Dict kc']) \<and>
     (counters ks', counters kc') =
       fold (\<lambda>entry. fold count_threat (get (threats entry) [])) entries (counters ks, counters kc)"
proof (induction entries arbitrary: ks kc)
  case Nil
  then show ?case by simp
next
  case (Cons e entries)
  obtain ks1 kc1 where
    1: "\<And>x. fold (count_threat_h (Suc (length h)) (Suc (Suc (length h)))) (get (threats e) [])
          (h @ [x, Dict ks, Dict kc]) = h @ [x, Dict ks1, Dict kc1]"
    and 2: "(counters ks1, counters kc1) =
          fold count_threat (get (threats e) []) (counters ks, counters kc)"
    using fold_count_threat_h_tail[of h "get (threats e) []" ks kc] by blast
  from Cons.IH[of ks1 kc1] show ?case by (simp add: 1 2[symmetric])
qed

lemma counters_nums: "counters (map (\<lambda>(k, n). (k, Num n)) al) = map_of al"
  by (induction al) (auto simp: counters_def fun_eq_iff)

lemma initial_counters:
  assumes "initial_severity_dict = Dict ks"
  shows "counters ks = initial_severity_counts"
proof -
  have "ks = map (\<lambda>(k, n). (k, Num n))
      [(ascii ''Cr'' @ [237] @ ascii ''tica'', 0), (ascii ''Alta'', 0),
       (ascii ''M'' @ [233] @ ascii ''dia'', 0), (ascii ''Baixa'', 0),
       (ascii ''Critical'', 0), (ascii ''High'', 0), (ascii ''Medium'', 0), (ascii ''Low'', 0)]"
    using assms by (simp add: initial_severity_dict_def)
  then show ?thesis
    unfolding initial_severity_counts_def by (simp only: counters_nums)
qed

lemma counters_empty: "counters [] = Map.empty"
  by (simp add: counters_def)

lemma strings_of_first:
  "strings_of (h @ PyList vs # rest) (length h) = map (\<lambda>v. case v of Str s \<Rightarrow> s | _ \<Rightarrow> []) vs"
  by (simp add: strings_of_def list_of_def deref_def)

lemma generate_report_h_run:
  assumes "read_document h components_data = Some cd"
    and "read_report h stride_data = Some sd"
  shows "\<exists>objs.
     generate_report_h now h files components_data stride_data image_path output_path =
       Some (fst (generate_report now files cd sd image_path output_path),
             h @ objs,
             snd (generate_report now files cd sd image_path output_path))"
proof (cases "data_flow_lines (get (components cd) [])")
  case (Inl e)
  then show ?thesis
    by (simp add: generate_report_h_def generate_report_def report_lines_def assms Let_def
          new_def extend_tail)
next
  case (Inr flow)
  obtain ks0 where k0: "initial_severity_dict = Dict ks0"
    by (simp add: initial_severity_dict_def)
  obtain ks kc where
    f: "\<And>x. fold (\<lambda>entry. fold (count_threat_h (Suc (length h)) (Suc (Suc (length h))))
                      (get (threats entry) [])) (get (stride_analysis sd) [])
             (h @ [x, Dict ks0, Dict []]) = h @ [x, Dict ks, Dict kc]"
    and c: "(counters ks, counters kc) =
       fold (\<lambda>entry. fold count_threat (get (threats entry) [])) (get (stride_analysis sd) [])
         (counters ks0, counters [])"
    using count_entries_h_tail[of h "get (stride_analysis sd) []" ks0 "[]"] by blast
  have c': "count_threats (get (stride_analysis sd) []) = (counters ks, counters kc)"
    using c initial_counters[OF k0] counters_empty by (simp add: count_threats_def)
  show ?thesis
    by (simp add: generate_report_h_def generate_report_def report_lines_def assms Let_def
          new_def extend_tail Inr k0 f c' counts_of_second counts_of_third strings_of_first
          comp_def)
qed


lemma unchanged_append: "unchanged h (h @ objs)"
  by (simp add: unchanged_def nth_append)

lemma deref_unchanged:
  "unchanged h h' \<Longrightarrow> deref h v = Some obj \<Longrightarrow> deref h' v = Some obj"
  by (auto simp: unchanged_def deref_def split: pyval.splits if_splits)

lemma dict_of_unchanged:
  "unchanged h h' \<Longrightarrow> dict_of h v = Some kv \<Longrightarrow> dict_of h' v = Some kv"
  by (auto simp: dict_of_def dest: deref_unchanged split: option.splits pyobj.splits)

lemma list_of_unchanged:
  "unchanged h h' \<Longrightarrow> list_of h v = Some vs \<Longrightarrow> list_of h' v = Some vs"
  by (auto simp: list_of_def dest: deref_unchanged split: option.splits pyobj.splits)

lemma those_map_mono:
  assumes "those (map f vs) = Some xs" and "\<And>v x. f v = Some x \<Longrightarrow> g v = Some x"
  shows "those (map g vs) = Some xs"
  using assms(1)
proof (induction vs arbitrary: xs)
  case Nil
  then show ?case by simp
next
  case (Cons v vs)
  then show ?case by (auto simp: assms(2) split: option.splits)
qed

lemma list_field_unchanged:
  assumes "unchanged h h'" and "list_field h f kv key = Some r"
    and "\<And>v x. f v = Some x \<Longrightarrow> g v = Some x"
  shows "list_field h' g kv key = Some r"
proof (cases "map_of kv (ascii key)")
  case None
  then show ?thesis using assms(2) by (simp add: list_field_def)
next
  case (Some v)
  then obtain vs xs where "list_of h v = Some vs" "those (map f vs) = Some xs" "r = Some xs"
    using assms(2) by (auto simp: list_field_def split: option.splits)
  then show ?thesis
    using Some list_of_unchanged[OF assms(1)] those_map_mono[of f vs xs g] assms(3)
    by (simp add: list_field_def)
qed

lemma read_connection_unchanged:
  "unchanged h h' \<Longrightarrow> read_connection h v = Some c \<Longrightarrow> read_connection h' v = Some c"
  by (auto simp: read_connection_def bind_eq_Some_conv dest: dict_of_unchanged)

lemma read_component_unchanged:
  assumes "unchanged h h'" and "read_component h v = Some c"
  shows "read_component h' v = Some c"
proof -
  from assms(2) obtain kv n ty p d cs where
    r: "dict_of h v = Some kv" "str_field kv ''name'' = Some n" "str_field kv ''type'' = Some ty"
      "str_field kv ''provider'' = Some p" "str_field kv ''description'' = Some d"
      "list_field h (read_connection h) kv ''connections'' = Some cs"
      "c = \<lparr>name = n, type = ty, provider = p, description = d, connections = cs\<rparr>"
    by (auto simp: read_component_def bind_eq_Some_conv)
  have "list_field h' (read_connection h') kv ''connections'' = Some cs"
    using list_field_unchanged[OF assms(1) r(6)] read_connection_unchanged[OF assms(1)] by blast
  then show ?thesis
    using r dict_of_unchanged[OF assms(1) r(1)] by (simp add: read_component_def)
qed

lemma read_document_unchanged:
  assumes "unchanged h h'" and "read_document h v = Some cd"
  shows "read_document h' v = Some cd"
proof -
  from assms(2) obtain kv cs s where
    r: "dict_of h v = Some kv" "list_field h (read_component h) kv ''components'' = Some cs"
      "str_field kv ''architecture_summary'' = Some s"
      "cd = \<lparr>components = cs, architecture_summary = s\<rparr>"
    by (auto simp: read_document_def bind_eq_Some_conv)
  have "list_field h' (read_component h') kv ''components'' = Some cs"
    using list_field_unchanged[OF assms(1) r(2)] read_component_unchanged[OF assms(1)] by blast
  then show ?thesis
    using r dict_of_unchanged[OF assms(1) r(1)] by (simp add: read_document_def)
qed

lemma read_threat_unchanged:
  assumes "unchanged h h'" and "read_threat h v = Some t"
  shows "read_threat h' v = Some t"
proof -
  from assms(2) obtain kv c th s vs cs where
    r: "dict_of h v = Some kv" "str_field kv ''category'' = Some c"
      "str_field kv ''threat'' = Some th" "str_field kv ''severity'' = Some s"
      "list_field h read_str kv ''vulnerabilities'' = Some vs"
      "list_field h read_str kv ''countermeasures'' = Some cs"
      "t = \<lparr>category = c, threat = th, severity = s, vulnerabilities = vs, countermeasures = cs\<rparr>"
    by (auto simp: read_threat_def bind_eq_Some_conv)
  have "list_field h' read_str kv ''vulnerabilities'' = Some vs"
    "list_field h' read_str kv ''countermeasures'' = Some cs"
    using list_field_unchanged[OF assms(1) r(5)] list_field_unchanged[OF assms(1) r(6)] by blast+
  then show ?thesis
    using r dict_of_unchanged[OF assms(1) r(1)] by (simp add: read_threat_def)
qed

lemma read_entry_unchanged:
  assumes "unchanged h h'" and "read_entry h v = Some e"
  shows "read_entry h' v = Some e"
proof -
  from assms(2) obtain kv n ty ts where
    r: "dict_of h v = Some kv" "str_field kv ''component_name'' = Some n"
      "str_field kv ''component_type'' = Some ty"
      "list_field h (read_threat h) kv ''threats'' = Some ts"
      "e = \<lparr>component_name = n, component_type = ty, threats = ts\<rparr>"
    by (auto simp: read_entry_def bind_eq_Some_conv)
  have "list_field h' (read_threat h') kv ''threats'' = Some ts"
    using list_field_unchanged[OF assms(1) r(4)] read_threat_unchanged[OF assms(1)] by blast
  then show ?thesis
    using r dict_of_unchanged[OF assms(1) r(1)] by (simp add: read_entry_def)
qed

lemma read_report_unchanged:
  assumes "unchanged h h'" and "read_report h v = Some sd"
  shows "read_report h' v = Some sd"
proof -
  from assms(2) obtain kv es s rl where
    r: "dict_of h v = Some kv" "list_field h (read_entry h) kv ''stride_analysis'' = Some es"
      "str_field kv ''executive_summary'' = Some s" "str_field kv ''overall_risk_level'' = Some rl"
      "sd = \<lparr>stride_analysis = es, executive_summary = s, overall_risk_level = rl\<rparr>"
    by (auto simp: read_report_def bind_eq_Some_conv)
  have "list_field h' (read_entry h') kv ''stride_analysis'' = Some es"
    using list_field_unchanged[OF assms(1) r(2)] read_entry_unchanged[OF assms(1)] by blast
  then show ?thesis
    using r dict_of_unchanged[OF assms(1) r(1)] by (simp add: read_report_def)
qed

lemma unchanged_refl: "unchanged h h"
  by (simp add: unchanged_def)

lemma loads_or_repair_h_run:
  "loads_or_repair_h loads msg raw h =
     (case loads_or_repair (\<lambda>s. loads s h) msg raw of
        Inl e \<Rightarrow> (Inl e, h)
      | Inr (v, h') \<Rightarrow> (Inr v, h'))"
  by (auto simp: loads_or_repair_h_def loads_or_repair_def Let_def split: option.splits)

lemma analyze_stride_h_run:
  assumes "read_document h components_data = Some cd"
  shows "analyze_stride_h loads dumps llm h components_data =
     Some (case analyze_stride (\<lambda>s. loads s h) dumps llm cd of
             Inl e \<Rightarrow> (Inl e, h)
           | Inr (v, h') \<Rightarrow> (Inr v, h'))"
  by (simp add: analyze_stride_h_def analyze_stride_def assms Let_def loads_or_repair_h_run
        split: sum.splits)

lemma loads_or_repair_allocates:
  assumes "\<forall>s h0 v h1. loads s h0 = Some (v, h1) \<longrightarrow> unchanged h0 h1"
  shows "unchanged h (snd (loads_or_repair_h loads msg raw h))"
  using assms
  by (auto simp: loads_or_repair_h_def Let_def unchanged_refl split: option.splits)

lemma analyze_stride_h_allocates:
  assumes "\<forall>s h0 v h1. loads s h0 = Some (v, h1) \<longrightarrow> unchanged h0 h1"
    and "analyze_stride_h loads dumps llm h components_data = Some (r, h')"
  shows "unchanged h h'"
proof -
  from assms(2) obtain cd where cd: "read_document h components_data = Some cd"
    by (auto simp: analyze_stride_h_def bind_eq_Some_conv)
  show ?thesis
  proof (cases "strip_fences (strip (llm [stride_message dumps cd]))")
    case (Inl e)
    then show ?thesis using assms(2) cd by (auto simp: analyze_stride_h_def Let_def unchanged_refl)
  next
    case (Inr raw)
    then have "loads_or_repair_h loads
        (ascii ''Could not parse STRIDE response as JSON:'' @ [10]) raw h = (r, h')"
      using assms(2) cd by (simp add: analyze_stride_h_def Let_def)
    with loads_or_repair_allocates[OF assms(1),
        of h "ascii ''Could not parse STRIDE response as JSON:'' @ [10]" raw]
    show ?thesis by simp
  qed
qed


text \<open>
  C8. Let the argument \<open>components_data\<close> refer to a document in the heap. A run of
  \<open>analyze_stride\<close>, with a \<open>json.loads\<close> that only adds objects, ends in a heap where
  every object that existed before is unchanged, and where \<open>components_data\<close> still
  stands for the same document. When \<open>stride_data\<close> refers to a report, a run of
  \<open>generate_report\<close> ends likewise: every object that existed before is unchanged, both
  arguments stand for the same documents as before, and the result and the file written
  are those of \<open>generate_report\<close> on these documents.
\<close>

theorem arguments_left_unchanged:
  assumes "read_document h components_data = Some cd"
  shows
    "((\<forall>s h0 v h1. loads s h0 = Some (v, h1) \<longrightarrow> unchanged h0 h1) \<longrightarrow>
        (\<exists>r h'. analyze_stride_h loads dumps llm h components_data = Some (r, h') \<and>
                unchanged h h' \<and>
                read_document h' components_data = Some cd)) \<and>
     (read_report h stride_data = Some sd \<longrightarrow>
        (\<exists>r h' files'.
           generate_report_h now h files components_data stride_data image_path output_path =
             Some (r, h', files') \<and>
           unchanged h h' \<and>
           read_document h' components_data = Some cd \<and>
           read_report h' stride_data = Some sd \<and>
           (r, files') = generate_report now files cd sd image_path output_path))"
proof (intro conjI impI)
  assume al: "\<forall>s h0 v h1. loads s h0 = Some (v, h1) \<longrightarrow> unchanged h0 h1"
  obtain r h' where run: "analyze_stride_h loads dumps llm h components_data = Some (r, h')"
    using analyze_stride_h_run[OF assms, of loads dumps llm] by (cases "analyze_stride (\<lambda>s. loads s h) dumps llm cd") auto
  have u: "unchanged h h'" using al run by (rule analyze_stride_h_allocates)
  have "read_document h' components_data = Some cd"
    using u assms by (rule read_document_unchanged)
  with run u show "\<exists>r h'. analyze_stride_h loads dumps llm h components_data = Some (r, h') \<and>
                unchanged h h' \<and> read_document h' components_data = Some cd"
    by blast
next
  assume sd: "read_report h stride_data = Some sd"
  obtain objs where run:
    "generate_report_h now h files components_data stride_data image_path output_path =
       Some (fst (generate_report now files cd sd image_path output_path), h @ objs,
             snd (generate_report now files cd sd image_path output_path))"
    using generate_report_h_run[OF assms sd] by blast
  have u: "unchanged h (h @ objs)" by (rule unchanged_append)
  have "read_document (h @ objs) components_data = Some cd"
    and "read_report (h @ objs) stride_data = Some sd"
    using u assms sd by (auto intro: read_document_unchanged read_report_unchanged)
  with run u show "\<exists>r h' files'.
           generate_report_h now h files components_data stride_data image_path output_path =
             Some (r, h', files') \<and>
           unchanged h h' \<and>
           read_document h' components_data = Some cd \<and>
           read_report h' stride_data = Some sd \<and>
           (r, files') = generate_report now files cd sd image_path output_path"
    by (intro exI[of _ "fst (generate_report now files cd sd image_path output_path)"]
          exI[of _ "h @ objs"]
          exI[of _ "snd (generate_report now files cd sd image_path output_path)"]) simp
qed

lemmas heap_eval = read_document_def read_component_def read_connection_def read_report_def
  read_entry_def read_threat_def list_field_def str_field_def read_str_def dict_of_def
  list_of_def deref_def sample_heap_def ascii_def

theorem arguments_left_unchanged_witness:
  "(\<exists>r h'. analyze_stride_h toy_loads_h (\<lambda>_. []) (\<lambda>_. ascii ''{}'') sample_heap (Ref 0) = Some (r, h') \<and>
           unchanged sample_heap h' \<and>
           read_document h' (Ref 0) = Some sample_heap_document) \<and>
   (\<exists>r h' files'.
      generate_report_h [] sample_heap Map.empty (Ref 0) (Ref 5) [] [] = Some (r, h', files') \<and>
      unchanged sample_heap h' \<and>
      read_document h' (Ref 0) = Some sample_heap_document \<and>
      read_report h' (Ref 5) = Some sample_heap_report \<and>
      (r, files') = generate_report [] Map.empty sample_heap_document sample_heap_report [] [])"
proof -
  have rd: "read_document sample_heap (Ref 0) = Some sample_heap_document"
    by (simp add: heap_eval sample_heap_document_def)
  have rr: "read_report sample_heap (Ref 5) = Some sample_heap_report"
    by (simp add: heap_eval sample_heap_report_def threat_of_def)
  have al: "\<forall>s h0 v h1. toy_loads_h s h0 = Some (v, h1) \<longrightarrow> unchanged h0 h1"
    by (auto simp: toy_loads_h_def unchanged_append)
  from arguments_left_unchanged[OF rd, of toy_loads_h "\<lambda>_. []" "\<lambda>_. ascii ''{}''" "Ref 5"
      sample_heap_report "[]" Map.empty "[]" "[]"] al rr
  show ?thesis by blast
qed

end
